theory Spec2Isabelle
  imports Main "HOL-Library.Sublist"
begin

section \<open>Error taxonomy (errors.go, internal/types/types.go)\<close>

text \<open>
  Go strings are byte sequences and \<open>len\<close> counts bytes; they are modelled as
  \<^typ>\<open>string\<close>, a list of 8-bit characters.  \<open>Operation\<close> is a named string type
  with the constants of types.go.
\<close>

type_synonym Operation = string

definition OperationUpdateMetadata :: Operation where
  "OperationUpdateMetadata = ''UpdateMetadata''"

definition OperationUpgradePackages :: Operation where
  "OperationUpgradePackages = ''UpgradePackages''"

definition OperationInstall :: Operation where
  "OperationInstall = ''Install''"

definition OperationUninstall :: Operation where
  "OperationUninstall = ''Uninstall''"

definition OperationSearch :: Operation where
  "OperationSearch = ''Search''"

definition OperationListInstalled :: Operation where
  "OperationListInstalled = ''ListInstalled''"

text \<open>
  A non-nil Go \<open>error\<close> value.  \<open>ErrNotSupported\<close> and \<open>ErrNotAvailable\<close> are the two
  package-level sentinels (each a unique pointer made once by \<open>errors.New\<close>);
  \<open>ErrorString\<close> is any other value made by \<open>errors.New\<close>, which is never the same
  pointer as a sentinel whatever its text; \<open>WrapError\<close> is a value made by
  \<open>fmt.Errorf\<close> with the verb \<open>%w\<close>.  The three struct types keep their fields in
  the order of the source; the \<open>Payload\<close> map of \<open>ExternalFailureError\<close> takes no
  part in \<open>Unwrap\<close>, \<open>errors.Is\<close> or \<open>errors.As\<close> and is left out.  A possibly
  nil \<open>error\<close> is an \<^typ>\<open>'a option\<close>.
\<close>

datatype error =
    ErrNotSupported
  | ErrNotAvailable
  | ErrorString string
  | NotSupportedError Operation string string
  | NotAvailableError string string
  | ExternalFailureError Operation string string string "error option"
  | WrapError string error

text \<open>The \<open>Unwrap\<close> methods; a value without the method unwraps to nothing.\<close>

fun Unwrap :: "error \<Rightarrow> error option" where
  "Unwrap (NotSupportedError operation backend reason) = Some ErrNotSupported"
| "Unwrap (NotAvailableError backend reason) = Some ErrNotAvailable"
| "Unwrap (ExternalFailureError operation backend out errout e) = e"
| "Unwrap (WrapError msg e) = Some e"
| "Unwrap ErrNotSupported = None"
| "Unwrap ErrNotAvailable = None"
| "Unwrap (ErrorString s) = None"

text \<open>The number of \<open>Unwrap\<close> steps to the end of the chain.\<close>

fun chain_length :: "error \<Rightarrow> nat" where
  "chain_length (NotSupportedError operation backend reason) = 1"
| "chain_length (NotAvailableError backend reason) = 1"
| "chain_length (ExternalFailureError operation backend out errout None) = 0"
| "chain_length (ExternalFailureError operation backend out errout (Some e)) = Suc (chain_length e)"
| "chain_length (WrapError msg e) = Suc (chain_length e)"
| "chain_length ErrNotSupported = 0"
| "chain_length ErrNotAvailable = 0"
| "chain_length (ErrorString s) = 0"

lemma Unwrap_shorter: "Unwrap err = Some e \<Longrightarrow> chain_length e < chain_length err"
  by (cases err) auto

text \<open>
  The loop of \<open>errors.Is\<close>: compare, else unwrap and go on.  The targets used are
  the sentinels, for which equality of constructors is the pointer equality of Go.
\<close>

function is_loop :: "error \<Rightarrow> error \<Rightarrow> bool" where
  "is_loop err target =
     (if err = target then True
      else case Unwrap err of None \<Rightarrow> False | Some e \<Rightarrow> is_loop e target)"
  by pat_completeness auto
termination
  by (relation "measure (\<lambda>(err, target). chain_length err)") (auto simp: Unwrap_shorter)

declare is_loop.simps [simp del]

definition errors_Is :: "error option \<Rightarrow> error \<Rightarrow> bool" where
  "errors_Is err target = (case err of None \<Rightarrow> False | Some e \<Rightarrow> is_loop e target)"

text \<open>
  The loop of \<open>errors.As\<close> for a target of type \<open>*ExternalFailureError\<close>: the type
  assertion succeeds on that struct only.
\<close>

fun is_ExternalFailureError :: "error \<Rightarrow> bool" where
  "is_ExternalFailureError (ExternalFailureError operation backend out errout e) = True"
| "is_ExternalFailureError other = False"

function as_loop :: "error \<Rightarrow> bool" where
  "as_loop err =
     (if is_ExternalFailureError err then True
      else case Unwrap err of None \<Rightarrow> False | Some e \<Rightarrow> as_loop e)"
  by pat_completeness auto
termination
  by (relation "measure chain_length") (auto simp: Unwrap_shorter)

declare as_loop.simps [simp del]

definition errors_As_ExternalFailureError :: "error option \<Rightarrow> bool" where
  "errors_As_ExternalFailureError err = (case err of None \<Rightarrow> False | Some e \<Rightarrow> as_loop e)"

definition IsNotSupported :: "error option \<Rightarrow> bool" where
  "IsNotSupported err = errors_Is err ErrNotSupported"

definition IsNotAvailable :: "error option \<Rightarrow> bool" where
  "IsNotAvailable err = errors_Is err ErrNotAvailable"

definition IsExternalFailure :: "error option \<Rightarrow> bool" where
  "IsExternalFailure err = errors_As_ExternalFailureError err"

text \<open>
  The \<open>Error\<close> methods, which give the text of an error.  The string of a
  \<open>WrapError\<close> is the whole text that \<open>fmt.Errorf\<close> formatted.
\<close>

fun Error_text :: "error \<Rightarrow> string" where
  "Error_text ErrNotSupported = ''operation not supported''"
| "Error_text ErrNotAvailable = ''backend not available''"
| "Error_text (ErrorString s) = s"
| "Error_text (NotSupportedError operation backend reason) =
     (if reason \<noteq> []
      then ''operation not supported: '' @ operation @ '' operation not supported by ''
           @ backend @ '': '' @ reason
      else ''operation not supported: '' @ operation @ '' operation not supported by ''
           @ backend)"
| "Error_text (NotAvailableError backend reason) =
     (if reason \<noteq> []
      then ''backend not available: '' @ backend @ '': '' @ reason
      else ''backend not available: '' @ backend)"
| "Error_text (ExternalFailureError operation backend out errout None) =
     (let msg = ''external failure: '' @ operation @ '' operation on '' @ backend
      in if errout \<noteq> [] then msg @ '' (stderr: '' @ errout @ '')'' else msg)"
| "Error_text (ExternalFailureError operation backend out errout (Some e)) =
     (let msg = ''external failure: '' @ operation @ '' operation on '' @ backend;
          msg = msg @ '': '' @ Error_text e
      in if errout \<noteq> [] then msg @ '' (stderr: '' @ errout @ '')'' else msg)"
| "Error_text (WrapError msg e) = msg"

section \<open>Capabilities (capabilities.go)\<close>

record Capability =
  Operation :: Operation
  Supported :: bool
  Notes :: string

text \<open>The range loop with its early return.\<close>

fun Supports :: "Capability list \<Rightarrow> Operation \<Rightarrow> bool" where
  "Supports [] op = False"
| "Supports (c # caps) op =
     (if Operation c = op \<and> Supported c then True else Supports caps op)"

section \<open>Running commands (internal/runner/exec.go)\<close>

definition maxLen :: nat where
  "maxLen = 500"

definition sanitize :: "string \<Rightarrow> string" where
  "sanitize s = (if length s > maxLen then take maxLen s @ ''... (truncated)'' else s)"

text \<open>
  A \<open>Runner\<close> maps a command name and its arguments to stdout, stderr and an error;
  the context argument plays no part in what is modelled.
\<close>

type_synonym Runner = "string \<Rightarrow> string list \<Rightarrow> string \<times> string \<times> error option"

definition RunWithExternalError ::
  "Runner \<Rightarrow> Operation \<Rightarrow> string \<Rightarrow> string \<Rightarrow> string list \<Rightarrow> string \<times> string \<times> error option" where
  "RunWithExternalError runner operation backend name args =
     (case runner name args of
        (out, errout, err) \<Rightarrow>
          if err \<noteq> None
          then (out, errout,
                Some (ExternalFailureError operation backend (sanitize out) (sanitize errout) err))
          else (out, errout, None))"

section \<open>Progress model (progress package)\<close>

text \<open>
  A \<open>time.Time\<close> is a natural number, the zero \<open>Time\<close> being \<open>0\<close>.  The three
  entity structs share field names in Go; the records prefix them with \<open>a_\<close>,
  \<open>t_\<close>, \<open>s_\<close> and \<open>m_\<close>.
\<close>

type_synonym timestamp = nat

definition zero_time :: timestamp where
  "zero_time = 0"

datatype Severity = SeverityInfo | SeverityWarning | SeverityError

record ProgressMessage =
  m_Severity :: Severity
  m_Text :: string
  m_Timestamp :: timestamp
  m_ActionID :: string
  m_TaskID :: string
  m_StepID :: string

record ProgressAction =
  a_ID :: string
  a_Name :: string
  a_StartedAt :: timestamp
  a_EndedAt :: timestamp

record ProgressTask =
  t_ID :: string
  t_ActionID :: string
  t_Name :: string
  t_StartedAt :: timestamp
  t_EndedAt :: timestamp

record ProgressStep =
  s_ID :: string
  s_TaskID :: string
  s_Name :: string
  s_StartedAt :: timestamp
  s_EndedAt :: timestamp

text \<open>
  The four methods of the \<open>ProgressReporter\<close> interface, as the events a reporter
  receives.  A reporter is a value of any type \<open>'r\<close>, a nil interface is \<open>None\<close>, and
  a call of a method on reporter \<open>r\<close> is the pair of \<open>r\<close> and the event.
\<close>

datatype event =
    OnAction ProgressAction
  | OnTask ProgressTask
  | OnStep ProgressStep
  | OnMessage ProgressMessage

type_synonym 'r delivery = "'r \<times> event"

record 'r ProgressHelper =
  reporter :: "'r option"
  currentAction :: "ProgressAction option"
  currentTask :: "ProgressTask option"
  currentStep :: "ProgressStep option"

text \<open>
  What the environment hands to one call: the string \<open>uuid.New().String()\<close> of the
  identifier drawn and the time that \<open>time.Now()\<close> reads.  Every method calls each
  of the two at most once.
\<close>

record env =
  uuid_New :: string
  time_Now :: timestamp

text \<open>
  \<open>uuid.New()\<close> returns a \<open>UUID\<close>, an array of 16 bytes read from the random source
  of the library (with the version and variant bits set), and \<open>String\<close> writes it
  in the form 8-4-4-4-12 of lower-case hexadecimal digits.  A byte is a \<^typ>\<open>char\<close>.
  \<open>drawn u t\<close> is what the environment hands to a call during which \<open>uuid.New()\<close>
  returns \<open>u\<close> and the clock reads \<open>t\<close>.  (Should the random source fail,
  \<open>uuid.New()\<close> panics; that is outside what is modelled.)
\<close>

definition hexdigit :: "nat \<Rightarrow> char" where
  "hexdigit n = ''0123456789abcdef'' ! n"

definition hex_byte :: "char \<Rightarrow> string" where
  "hex_byte b = [hexdigit (of_char b div 16), hexdigit (of_char b mod 16)]"




section \<open>Progress helper (progress package)\<close>

definition NewProgressHelper :: "'r option \<Rightarrow> 'r option \<Rightarrow> 'r ProgressHelper" where
  "NewProgressHelper defaultReporter overrideReporter =
     \<lparr>reporter = (if overrideReporter = None then defaultReporter else overrideReporter),
      currentAction = None, currentTask = None, currentStep = None\<rparr>"

text \<open>
  Each method returns its result (the identifier, for a \<open>Begin\<close> method), the helper
  after the call and the calls it made on the reporter, in order.
\<close>

definition BeginAction ::
  "string \<Rightarrow> env \<Rightarrow> 'r ProgressHelper \<Rightarrow> string \<times> 'r ProgressHelper \<times> 'r delivery list" where
  "BeginAction name e h =
     (case reporter h of
        None \<Rightarrow> ([], h, [])
      | Some r \<Rightarrow>
          let action = \<lparr>a_ID = uuid_New e, a_Name = name,
                         a_StartedAt = time_Now e, a_EndedAt = zero_time\<rparr>
          in (a_ID action, h\<lparr>currentAction := Some action\<rparr>, [(r, OnAction action)]))"

definition EndAction :: "env \<Rightarrow> 'r ProgressHelper \<Rightarrow> 'r ProgressHelper \<times> 'r delivery list" where
  "EndAction e h =
     (case reporter h of
        None \<Rightarrow> (h, [])
      | Some r \<Rightarrow>
          (case currentAction h of
             None \<Rightarrow> (h, [])
           | Some a \<Rightarrow>
               let ended = a\<lparr>a_EndedAt := time_Now e\<rparr>
               in (h\<lparr>currentAction := None, currentTask := None, currentStep := None\<rparr>,
                   [(r, OnAction ended)])))"

definition BeginTask ::
  "string \<Rightarrow> env \<Rightarrow> 'r ProgressHelper \<Rightarrow> string \<times> 'r ProgressHelper \<times> 'r delivery list" where
  "BeginTask name e h =
     (case reporter h of
        None \<Rightarrow> ([], h, [])
      | Some r \<Rightarrow>
          let actionID = (case currentAction h of None \<Rightarrow> [] | Some a \<Rightarrow> a_ID a);
              task = \<lparr>t_ID = uuid_New e, t_ActionID = actionID, t_Name = name,
                       t_StartedAt = time_Now e, t_EndedAt = zero_time\<rparr>
          in (t_ID task, h\<lparr>currentTask := Some task\<rparr>, [(r, OnTask task)]))"

definition EndTask :: "env \<Rightarrow> 'r ProgressHelper \<Rightarrow> 'r ProgressHelper \<times> 'r delivery list" where
  "EndTask e h =
     (case reporter h of
        None \<Rightarrow> (h, [])
      | Some r \<Rightarrow>
          (case currentTask h of
             None \<Rightarrow> (h, [])
           | Some t \<Rightarrow>
               let ended = t\<lparr>t_EndedAt := time_Now e\<rparr>
               in (h\<lparr>currentTask := None, currentStep := None\<rparr>, [(r, OnTask ended)])))"

definition BeginStep ::
  "string \<Rightarrow> env \<Rightarrow> 'r ProgressHelper \<Rightarrow> string \<times> 'r ProgressHelper \<times> 'r delivery list" where
  "BeginStep name e h =
     (case reporter h of
        None \<Rightarrow> ([], h, [])
      | Some r \<Rightarrow>
          let taskID = (case currentTask h of None \<Rightarrow> [] | Some t \<Rightarrow> t_ID t);
              step = \<lparr>s_ID = uuid_New e, s_TaskID = taskID, s_Name = name,
                       s_StartedAt = time_Now e, s_EndedAt = zero_time\<rparr>
          in (s_ID step, h\<lparr>currentStep := Some step\<rparr>, [(r, OnStep step)]))"

definition EndStep :: "env \<Rightarrow> 'r ProgressHelper \<Rightarrow> 'r ProgressHelper \<times> 'r delivery list" where
  "EndStep e h =
     (case reporter h of
        None \<Rightarrow> (h, [])
      | Some r \<Rightarrow>
          (case currentStep h of
             None \<Rightarrow> (h, [])
           | Some s \<Rightarrow>
               let ended = s\<lparr>s_EndedAt := time_Now e\<rparr>
               in (h\<lparr>currentStep := None\<rparr>, [(r, OnStep ended)])))"

definition message ::
  "Severity \<Rightarrow> string \<Rightarrow> env \<Rightarrow> 'r ProgressHelper \<Rightarrow> 'r ProgressHelper \<times> 'r delivery list" where
  "message severity txt e h =
     (case reporter h of
        None \<Rightarrow> (h, [])
      | Some r \<Rightarrow>
          let msg = \<lparr>m_Severity = severity, m_Text = txt, m_Timestamp = time_Now e,
                      m_ActionID = [], m_TaskID = [], m_StepID = []\<rparr>;
              msg = (case currentAction h of None \<Rightarrow> msg | Some a \<Rightarrow> msg\<lparr>m_ActionID := a_ID a\<rparr>);
              msg = (case currentTask h of None \<Rightarrow> msg | Some t \<Rightarrow> msg\<lparr>m_TaskID := t_ID t\<rparr>);
              msg = (case currentStep h of None \<Rightarrow> msg | Some s \<Rightarrow> msg\<lparr>m_StepID := s_ID s\<rparr>)
          in (h, [(r, OnMessage msg)]))"

definition Info :: "string \<Rightarrow> env \<Rightarrow> 'r ProgressHelper \<Rightarrow> 'r ProgressHelper \<times> 'r delivery list" where
  "Info txt e h = message SeverityInfo txt e h"

definition Warning :: "string \<Rightarrow> env \<Rightarrow> 'r ProgressHelper \<Rightarrow> 'r ProgressHelper \<times> 'r delivery list" where
  "Warning txt e h = message SeverityWarning txt e h"

definition Error :: "string \<Rightarrow> env \<Rightarrow> 'r ProgressHelper \<Rightarrow> 'r ProgressHelper \<times> 'r delivery list" where
  "Error txt e h = message SeverityError txt e h"

subsection \<open>Sequences of calls on one helper\<close>

datatype call =
    CallBeginAction string
  | CallEndAction
  | CallBeginTask string
  | CallEndTask
  | CallBeginStep string
  | CallEndStep
  | CallInfo string
  | CallWarning string
  | CallError string

text \<open>
  One call: the identifier it returns (\<open>None\<close> for a method without a result), the
  helper afterwards and the deliveries made.
\<close>

fun exec ::
  "call \<Rightarrow> env \<Rightarrow> 'r ProgressHelper \<Rightarrow> string option \<times> 'r ProgressHelper \<times> 'r delivery list" where
  "exec (CallBeginAction name) e h = (case BeginAction name e h of (i, h', out) \<Rightarrow> (Some i, h', out))"
| "exec CallEndAction e h = (case EndAction e h of (h', out) \<Rightarrow> (None, h', out))"
| "exec (CallBeginTask name) e h = (case BeginTask name e h of (i, h', out) \<Rightarrow> (Some i, h', out))"
| "exec CallEndTask e h = (case EndTask e h of (h', out) \<Rightarrow> (None, h', out))"
| "exec (CallBeginStep name) e h = (case BeginStep name e h of (i, h', out) \<Rightarrow> (Some i, h', out))"
| "exec CallEndStep e h = (case EndStep e h of (h', out) \<Rightarrow> (None, h', out))"
| "exec (CallInfo txt) e h = (case Info txt e h of (h', out) \<Rightarrow> (None, h', out))"
| "exec (CallWarning txt) e h = (case Warning txt e h of (h', out) \<Rightarrow> (None, h', out))"
| "exec (CallError txt) e h = (case Error txt e h of (h', out) \<Rightarrow> (None, h', out))"

definition exec_state :: "call \<Rightarrow> env \<Rightarrow> 'r ProgressHelper \<Rightarrow> 'r ProgressHelper" where
  "exec_state c e h = fst (snd (exec c e h))"

definition exec_out :: "call \<Rightarrow> env \<Rightarrow> 'r ProgressHelper \<Rightarrow> 'r delivery list" where
  "exec_out c e h = snd (snd (exec c e h))"


text \<open>A sequence of calls, each with what the environment hands to it.\<close>

fun state_after :: "(call \<times> env) list \<Rightarrow> 'r ProgressHelper \<Rightarrow> 'r ProgressHelper" where
  "state_after [] h = h"
| "state_after ((c, e) # cs) h = state_after cs (exec_state c e h)"

fun deliveries :: "(call \<times> env) list \<Rightarrow> 'r ProgressHelper \<Rightarrow> 'r delivery list" where
  "deliveries [] h = []"
| "deliveries ((c, e) # cs) h = exec_out c e h @ deliveries cs (exec_state c e h)"


fun is_begin :: "call \<Rightarrow> bool" where
  "is_begin (CallBeginAction name) = True"
| "is_begin (CallBeginTask name) = True"
| "is_begin (CallBeginStep name) = True"
| "is_begin other = False"

fun is_message :: "call \<Rightarrow> bool" where
  "is_message (CallInfo txt) = True"
| "is_message (CallWarning txt) = True"
| "is_message (CallError txt) = True"
| "is_message other = False"

section \<open>Progress helper (internal/types/progress_helpers.go)\<close>

text \<open>
  The copy of the helper in package \<open>types\<close>, over the same structs.  Its functions
  carry the prefix \<open>types_\<close>.  \<open>EndAction\<close>, \<open>EndTask\<close> and \<open>EndStep\<close> stamp a copy
  of the current entity, deliver it and set only their own reference to nil.
\<close>

definition types_NewProgressHelper :: "'r option \<Rightarrow> 'r option \<Rightarrow> 'r ProgressHelper" where
  "types_NewProgressHelper defaultReporter overrideReporter =
     \<lparr>reporter = (if overrideReporter = None then defaultReporter else overrideReporter),
      currentAction = None, currentTask = None, currentStep = None\<rparr>"

definition types_BeginAction ::
  "string \<Rightarrow> env \<Rightarrow> 'r ProgressHelper \<Rightarrow> string \<times> 'r ProgressHelper \<times> 'r delivery list" where
  "types_BeginAction name e h =
     (case reporter h of
        None \<Rightarrow> ([], h, [])
      | Some r \<Rightarrow>
          let action = \<lparr>a_ID = uuid_New e, a_Name = name,
                         a_StartedAt = time_Now e, a_EndedAt = zero_time\<rparr>
          in (a_ID action, h\<lparr>currentAction := Some action\<rparr>, [(r, OnAction action)]))"

definition types_EndAction :: "env \<Rightarrow> 'r ProgressHelper \<Rightarrow> 'r ProgressHelper \<times> 'r delivery list" where
  "types_EndAction e h =
     (case reporter h of
        None \<Rightarrow> (h, [])
      | Some r \<Rightarrow>
          (case currentAction h of
             None \<Rightarrow> (h, [])
           | Some a \<Rightarrow>
               let action = a\<lparr>a_EndedAt := time_Now e\<rparr>
               in (h\<lparr>currentAction := None\<rparr>, [(r, OnAction action)])))"

definition types_BeginTask ::
  "string \<Rightarrow> env \<Rightarrow> 'r ProgressHelper \<Rightarrow> string \<times> 'r ProgressHelper \<times> 'r delivery list" where
  "types_BeginTask name e h =
     (case reporter h of
        None \<Rightarrow> ([], h, [])
      | Some r \<Rightarrow>
          let task = \<lparr>t_ID = uuid_New e, t_ActionID = [], t_Name = name,
                       t_StartedAt = time_Now e, t_EndedAt = zero_time\<rparr>;
              task = (case currentAction h of None \<Rightarrow> task | Some a \<Rightarrow> task\<lparr>t_ActionID := a_ID a\<rparr>)
          in (t_ID task, h\<lparr>currentTask := Some task\<rparr>, [(r, OnTask task)]))"

definition types_EndTask :: "env \<Rightarrow> 'r ProgressHelper \<Rightarrow> 'r ProgressHelper \<times> 'r delivery list" where
  "types_EndTask e h =
     (case reporter h of
        None \<Rightarrow> (h, [])
      | Some r \<Rightarrow>
          (case currentTask h of
             None \<Rightarrow> (h, [])
           | Some t \<Rightarrow>
               let task = t\<lparr>t_EndedAt := time_Now e\<rparr>
               in (h\<lparr>currentTask := None\<rparr>, [(r, OnTask task)])))"

definition types_BeginStep ::
  "string \<Rightarrow> env \<Rightarrow> 'r ProgressHelper \<Rightarrow> string \<times> 'r ProgressHelper \<times> 'r delivery list" where
  "types_BeginStep name e h =
     (case reporter h of
        None \<Rightarrow> ([], h, [])
      | Some r \<Rightarrow>
          let step = \<lparr>s_ID = uuid_New e, s_TaskID = [], s_Name = name,
                       s_StartedAt = time_Now e, s_EndedAt = zero_time\<rparr>;
              step = (case currentTask h of None \<Rightarrow> step | Some t \<Rightarrow> step\<lparr>s_TaskID := t_ID t\<rparr>)
          in (s_ID step, h\<lparr>currentStep := Some step\<rparr>, [(r, OnStep step)]))"

definition types_EndStep :: "env \<Rightarrow> 'r ProgressHelper \<Rightarrow> 'r ProgressHelper \<times> 'r delivery list" where
  "types_EndStep e h =
     (case reporter h of
        None \<Rightarrow> (h, [])
      | Some r \<Rightarrow>
          (case currentStep h of
             None \<Rightarrow> (h, [])
           | Some s \<Rightarrow>
               let step = s\<lparr>s_EndedAt := time_Now e\<rparr>
               in (h\<lparr>currentStep := None\<rparr>, [(r, OnStep step)])))"

definition types_message ::
  "Severity \<Rightarrow> string \<Rightarrow> env \<Rightarrow> 'r ProgressHelper \<Rightarrow> 'r ProgressHelper \<times> 'r delivery list" where
  "types_message severity txt e h =
     (case reporter h of
        None \<Rightarrow> (h, [])
      | Some r \<Rightarrow>
          let msg = \<lparr>m_Severity = severity, m_Text = txt, m_Timestamp = time_Now e,
                      m_ActionID = [], m_TaskID = [], m_StepID = []\<rparr>;
              msg = (case currentAction h of None \<Rightarrow> msg | Some a \<Rightarrow> msg\<lparr>m_ActionID := a_ID a\<rparr>);
              msg = (case currentTask h of None \<Rightarrow> msg | Some t \<Rightarrow> msg\<lparr>m_TaskID := t_ID t\<rparr>);
              msg = (case currentStep h of None \<Rightarrow> msg | Some s \<Rightarrow> msg\<lparr>m_StepID := s_ID s\<rparr>)
          in (h, [(r, OnMessage msg)]))"

definition types_Info :: "string \<Rightarrow> env \<Rightarrow> 'r ProgressHelper \<Rightarrow> 'r ProgressHelper \<times> 'r delivery list" where
  "types_Info txt e h = types_message SeverityInfo txt e h"

definition types_Warning :: "string \<Rightarrow> env \<Rightarrow> 'r ProgressHelper \<Rightarrow> 'r ProgressHelper \<times> 'r delivery list" where
  "types_Warning txt e h = types_message SeverityWarning txt e h"

definition types_Error :: "string \<Rightarrow> env \<Rightarrow> 'r ProgressHelper \<Rightarrow> 'r ProgressHelper \<times> 'r delivery list" where
  "types_Error txt e h = types_message SeverityError txt e h"

fun types_exec ::
  "call \<Rightarrow> env \<Rightarrow> 'r ProgressHelper \<Rightarrow> string option \<times> 'r ProgressHelper \<times> 'r delivery list" where
  "types_exec (CallBeginAction name) e h =
     (case types_BeginAction name e h of (i, h', out) \<Rightarrow> (Some i, h', out))"
| "types_exec CallEndAction e h = (case types_EndAction e h of (h', out) \<Rightarrow> (None, h', out))"
| "types_exec (CallBeginTask name) e h =
     (case types_BeginTask name e h of (i, h', out) \<Rightarrow> (Some i, h', out))"
| "types_exec CallEndTask e h = (case types_EndTask e h of (h', out) \<Rightarrow> (None, h', out))"
| "types_exec (CallBeginStep name) e h =
     (case types_BeginStep name e h of (i, h', out) \<Rightarrow> (Some i, h', out))"
| "types_exec CallEndStep e h = (case types_EndStep e h of (h', out) \<Rightarrow> (None, h', out))"
| "types_exec (CallInfo txt) e h = (case types_Info txt e h of (h', out) \<Rightarrow> (None, h', out))"
| "types_exec (CallWarning txt) e h = (case types_Warning txt e h of (h', out) \<Rightarrow> (None, h', out))"
| "types_exec (CallError txt) e h = (case types_Error txt e h of (h', out) \<Rightarrow> (None, h', out))"

fun types_deliveries :: "(call \<times> env) list \<Rightarrow> 'r ProgressHelper \<Rightarrow> 'r delivery list" where
  "types_deliveries [] h = []"
| "types_deliveries ((c, e) # cs) h =
     snd (snd (types_exec c e h)) @ types_deliveries cs (fst (snd (types_exec c e h)))"

text \<open>
  A sequence of calls is nested from a helper when no \<open>EndAction\<close> meets an open
  action with a task or step still open, and no \<open>EndTask\<close> meets an open task with
  a step still open: every entity is ended before its parent.
\<close>

fun well_nested :: "(call \<times> env) list \<Rightarrow> 'r ProgressHelper \<Rightarrow> bool" where
  "well_nested [] h = True"
| "well_nested ((c, e) # cs) h =
     ((c = CallEndAction \<longrightarrow>
         currentAction h = None \<or> (currentTask h = None \<and> currentStep h = None))
      \<and> (c = CallEndTask \<longrightarrow> currentTask h = None \<or> currentStep h = None)
      \<and> well_nested cs (exec_state c e h))"

section \<open>The open path of the data model\<close>

text \<open>
  The data model of the specification, on identifiers alone: at most one action, one
  task and one step are open.  A \<open>Begin\<close> opens an entity and records the identifier
  of its parent as open at that moment (empty when none is).  Ending an entity
  closes it together with whatever is open below it; an \<open>End\<close> with nothing open at
  its level does nothing.  This section is written from the specification, to be
  compared with the helper above.
\<close>

record open_path =
  open_action :: "string option"
  open_task :: "(string \<times> string) option"
  open_step :: "(string \<times> string) option"

definition no_open :: open_path where
  "no_open = \<lparr>open_action = None, open_task = None, open_step = None\<rparr>"

definition id_or_empty :: "string option \<Rightarrow> string" where
  "id_or_empty i = (case i of None \<Rightarrow> [] | Some x \<Rightarrow> x)"

fun spec_step :: "call \<Rightarrow> env \<Rightarrow> open_path \<Rightarrow> open_path" where
  "spec_step (CallBeginAction name) e p = p\<lparr>open_action := Some (uuid_New e)\<rparr>"
| "spec_step CallEndAction e p =
     (if open_action p = None then p else no_open)"
| "spec_step (CallBeginTask name) e p =
     p\<lparr>open_task := Some (uuid_New e, id_or_empty (open_action p))\<rparr>"
| "spec_step CallEndTask e p =
     (if open_task p = None then p else p\<lparr>open_task := None, open_step := None\<rparr>)"
| "spec_step (CallBeginStep name) e p =
     p\<lparr>open_step := Some (uuid_New e, id_or_empty (map_option fst (open_task p)))\<rparr>"
| "spec_step CallEndStep e p = p\<lparr>open_step := None\<rparr>"
| "spec_step (CallInfo txt) e p = p"
| "spec_step (CallWarning txt) e p = p"
| "spec_step (CallError txt) e p = p"

fun spec_open :: "(call \<times> env) list \<Rightarrow> open_path \<Rightarrow> open_path" where
  "spec_open [] p = p"
| "spec_open ((c, e) # cs) p = spec_open cs (spec_step c e p)"

text \<open>What the fields of a helper say is open.\<close>

definition path_of :: "'r ProgressHelper \<Rightarrow> open_path" where
  "path_of h =
     \<lparr>open_action = map_option a_ID (currentAction h),
      open_task = map_option (\<lambda>t. (t_ID t, t_ActionID t)) (currentTask h),
      open_step = map_option (\<lambda>s. (s_ID s, s_TaskID s)) (currentStep h)\<rparr>"

section \<open>String functions of the Go library that the backends call\<close>

text \<open>
  White space is the ASCII set of \<open>strings.Fields\<close> and \<open>strings.TrimSpace\<close>: tab,
  line feed, vertical tab, form feed, carriage return and space.  (On text that is
  not ASCII the library also counts the Unicode spaces; command output read here is
  taken as bytes.)
\<close>

definition isSpace :: "char \<Rightarrow> bool" where
  "isSpace c \<longleftrightarrow> c \<in> {CHR 0x09, CHR 0x0A, CHR 0x0B, CHR 0x0C, CHR 0x0D, CHR '' ''}"

text \<open>\<open>strings.Split(s, "\n")\<close>: the pieces between line feeds, one more than line feeds.\<close>

fun split_lines :: "string \<Rightarrow> string \<Rightarrow> string list" where
  "split_lines cur [] = [rev cur]"
| "split_lines cur (c # cs) =
     (if c = CHR 0x0A then rev cur # split_lines [] cs else split_lines (c # cur) cs)"

definition strings_Split_newline :: "string \<Rightarrow> string list" where
  "strings_Split_newline s = split_lines [] s"

definition strings_HasPrefix :: "string \<Rightarrow> string \<Rightarrow> bool" where
  "strings_HasPrefix s pre \<longleftrightarrow> length pre \<le> length s \<and> take (length pre) s = pre"

fun strings_Contains :: "string \<Rightarrow> string \<Rightarrow> bool" where
  "strings_Contains [] substr = (substr = [])"
| "strings_Contains (c # cs) substr =
     (strings_HasPrefix (c # cs) substr \<or> strings_Contains cs substr)"

text \<open>\<open>strings.Fields\<close>: the maximal runs of characters that are not white space.\<close>

fun fields_from :: "string \<Rightarrow> string \<Rightarrow> string list" where
  "fields_from cur [] = (if cur = [] then [] else [rev cur])"
| "fields_from cur (c # cs) =
     (if isSpace c
      then (if cur = [] then fields_from [] cs else rev cur # fields_from [] cs)
      else fields_from (c # cur) cs)"

definition strings_Fields :: "string \<Rightarrow> string list" where
  "strings_Fields s = fields_from [] s"

definition strings_TrimSpace :: "string \<Rightarrow> string" where
  "strings_TrimSpace s = rev (dropWhile isSpace (rev (dropWhile isSpace s)))"

section \<open>Results and backends (internal/types/types.go, internal/backend)\<close>

record PackageRef =
  Name :: string
  Namespace :: string
  Channel :: string
  Kind :: string

text \<open>
  \<open>UpdateResult\<close> has the two fields of the source and no list of packages; its
  fields carry the prefix \<open>u_\<close> to keep them apart from those of \<open>UpgradeResult\<close>.
\<close>

record UpdateResult =
  u_Changed :: bool
  u_Messages :: "ProgressMessage list"

record UpgradeResult =
  Changed :: bool
  PackagesChanged :: "PackageRef list"
  Messages :: "ProgressMessage list"

definition UpdateResult_zero :: UpdateResult where
  "UpdateResult_zero = \<lparr>u_Changed = False, u_Messages = []\<rparr>"

definition UpgradeResult_zero :: UpgradeResult where
  "UpgradeResult_zero = \<lparr>Changed = False, PackagesChanged = [], Messages = []\<rparr>"

text \<open>
  A backend holds its runner and its default reporter, either of which may be nil.
  The HTTP client of the brew and snap backends is used by \<open>Available\<close> and by the
  search of brew only; what \<open>searchFormulae\<close> returns through it is an argument of
  \<open>brew_Search_err\<close>.  The methods below give what the Go methods return; the calls
  they make on the progress helper return nothing that reaches the result and are
  left out.  For \<open>Install\<close>, \<open>Uninstall\<close>, \<open>Search\<close> and \<open>ListInstalled\<close> only the
  error is modelled (suffix \<open>_err\<close>), not the parsing of the output.
\<close>

record 'r Backend =
  runner :: "Runner option"
  progress :: "'r option"

definition run_err ::
  "Runner \<Rightarrow> Operation \<Rightarrow> string \<Rightarrow> string \<Rightarrow> string list \<Rightarrow> error option" where
  "run_err r operation backend cmd args =
     (case RunWithExternalError r operation backend cmd args of (out, errout, err) \<Rightarrow> err)"

subsection \<open>snap (snap.go)\<close>

definition snap_Capabilities :: "'r Backend \<Rightarrow> Capability list" where
  "snap_Capabilities b =
     (let hasRunner = (runner b \<noteq> None) in
      [\<lparr>Operation = OperationSearch, Supported = hasRunner, Notes = ''via snap find CLI''\<rparr>,
       \<lparr>Operation = OperationUpdateMetadata, Supported = hasRunner, Notes = ''via snap refresh CLI''\<rparr>,
       \<lparr>Operation = OperationUpgradePackages, Supported = hasRunner, Notes = ''via snap refresh CLI''\<rparr>,
       \<lparr>Operation = OperationInstall, Supported = hasRunner, Notes = ''via snap install CLI''\<rparr>,
       \<lparr>Operation = OperationUninstall, Supported = hasRunner, Notes = ''via snap remove CLI''\<rparr>,
       \<lparr>Operation = OperationListInstalled, Supported = hasRunner, Notes = ''via snap list CLI''\<rparr>])"

definition snap_Update :: "'r Backend \<Rightarrow> UpdateResult \<times> error option" where
  "snap_Update b =
     (case runner b of
        None \<Rightarrow> (UpdateResult_zero, Some ErrNotSupported)
      | Some r \<Rightarrow>
          (case RunWithExternalError r OperationUpdateMetadata ''snap'' ''snap''
                  [''refresh'', ''--list''] of
             (out, errout, err) \<Rightarrow>
               if err \<noteq> None then (UpdateResult_zero, err)
               else let changed = (length (strings_TrimSpace out) > 0
                                   \<and> \<not> strings_Contains out ''All snaps up to date'')
                    in (\<lparr>u_Changed = changed, u_Messages = []\<rparr>, None)))"

text \<open>The loop over the lines of \<open>snap refresh\<close>, on the pair of its two variables.\<close>

fun snap_upgrade_lines :: "string list \<Rightarrow> bool \<times> PackageRef list \<Rightarrow> bool \<times> PackageRef list" where
  "snap_upgrade_lines [] acc = acc"
| "snap_upgrade_lines (l # ls) (changed, packagesChanged) =
     (let line = strings_TrimSpace l in
      if strings_Contains line ''refreshed'' \<or> strings_Contains line ''installed''
      then (let fields = strings_Fields line in
            if length fields \<ge> 1
            then snap_upgrade_lines ls
                   (True, packagesChanged @
                      [\<lparr>Name = fields ! 0, Namespace = [], Channel = [], Kind = ''snap''\<rparr>])
            else snap_upgrade_lines ls (True, packagesChanged))
      else snap_upgrade_lines ls (changed, packagesChanged))"

definition snap_Upgrade :: "'r Backend \<Rightarrow> UpgradeResult \<times> error option" where
  "snap_Upgrade b =
     (case runner b of
        None \<Rightarrow> (UpgradeResult_zero, Some ErrNotSupported)
      | Some r \<Rightarrow>
          (case RunWithExternalError r OperationUpgradePackages ''snap'' ''snap'' [''refresh''] of
             (out, errout, err) \<Rightarrow>
               if err \<noteq> None then (UpgradeResult_zero, err)
               else (case snap_upgrade_lines (strings_Split_newline out) (False, []) of
                       (changed, packagesChanged) \<Rightarrow>
                         let changed = (if strings_Contains out ''All snaps up to date''
                                        then False else changed)
                         in (\<lparr>Changed = changed, PackagesChanged = packagesChanged,
                               Messages = []\<rparr>, None))))"

definition snap_Install_err :: "'r Backend \<Rightarrow> PackageRef list \<Rightarrow> error option" where
  "snap_Install_err b pkgs =
     (case runner b of
        None \<Rightarrow> Some ErrNotSupported
      | Some r \<Rightarrow>
          if length pkgs = 0 then None
          else run_err r OperationInstall ''snap'' ''snap'' (''install'' # map Name pkgs))"

definition snap_Uninstall_err :: "'r Backend \<Rightarrow> PackageRef list \<Rightarrow> error option" where
  "snap_Uninstall_err b pkgs =
     (case runner b of
        None \<Rightarrow> Some ErrNotSupported
      | Some r \<Rightarrow>
          if length pkgs = 0 then None
          else run_err r OperationUninstall ''snap'' ''snap'' (''remove'' # map Name pkgs))"

definition snap_Search_err :: "'r Backend \<Rightarrow> string \<Rightarrow> error option" where
  "snap_Search_err b query =
     (case runner b of
        None \<Rightarrow> Some ErrNotSupported
      | Some r \<Rightarrow>
          if query = [] then None
          else run_err r OperationSearch ''snap'' ''snap'' [''find'', query])"

definition snap_ListInstalled_err :: "'r Backend \<Rightarrow> error option" where
  "snap_ListInstalled_err b =
     (case runner b of
        None \<Rightarrow> Some ErrNotSupported
      | Some r \<Rightarrow> run_err r OperationListInstalled ''snap'' ''snap'' [''list''])"

subsection \<open>brew (brew.go)\<close>

definition brew_Capabilities :: "'r Backend \<Rightarrow> Capability list" where
  "brew_Capabilities b =
     (let hasRunner = (runner b \<noteq> None) in
      [\<lparr>Operation = OperationSearch, Supported = True, Notes = ''via Formulae API''\<rparr>,
       \<lparr>Operation = OperationUpdateMetadata, Supported = hasRunner, Notes = ''via brew update CLI''\<rparr>,
       \<lparr>Operation = OperationUpgradePackages, Supported = hasRunner, Notes = ''via brew upgrade CLI''\<rparr>,
       \<lparr>Operation = OperationInstall, Supported = hasRunner, Notes = ''via brew install CLI''\<rparr>,
       \<lparr>Operation = OperationUninstall, Supported = hasRunner, Notes = ''via brew uninstall CLI''\<rparr>,
       \<lparr>Operation = OperationListInstalled, Supported = hasRunner, Notes = ''via brew list CLI''\<rparr>])"

definition brew_Update :: "'r Backend \<Rightarrow> UpdateResult \<times> error option" where
  "brew_Update b =
     (case runner b of
        None \<Rightarrow> (UpdateResult_zero, Some ErrNotSupported)
      | Some r \<Rightarrow>
          (case RunWithExternalError r OperationUpdateMetadata ''brew'' ''brew'' [''update''] of
             (out, errout, err) \<Rightarrow>
               if err \<noteq> None then (UpdateResult_zero, err)
               else let changed = (strings_Contains out ''Updated''
                                   \<or> strings_Contains out ''Homebrew updated'')
                    in (\<lparr>u_Changed = changed, u_Messages = []\<rparr>, None)))"

fun brew_upgrade_lines :: "string list \<Rightarrow> bool \<times> PackageRef list \<Rightarrow> bool \<times> PackageRef list" where
  "brew_upgrade_lines [] acc = acc"
| "brew_upgrade_lines (line # ls) (changed, packagesChanged) =
     (if strings_Contains line ''==> Upgrading''
      then (let parts = strings_Fields line in
            if length parts \<ge> 3
            then brew_upgrade_lines ls
                   (True, packagesChanged @
                      [\<lparr>Name = parts ! 2, Namespace = [], Channel = [], Kind = ''formula''\<rparr>])
            else brew_upgrade_lines ls (True, packagesChanged))
      else brew_upgrade_lines ls (changed, packagesChanged))"

definition brew_Upgrade :: "'r Backend \<Rightarrow> UpgradeResult \<times> error option" where
  "brew_Upgrade b =
     (case runner b of
        None \<Rightarrow> (UpgradeResult_zero, Some ErrNotSupported)
      | Some r \<Rightarrow>
          (case RunWithExternalError r OperationUpgradePackages ''brew'' ''brew'' [''upgrade''] of
             (out, errout, err) \<Rightarrow>
               if err \<noteq> None then (UpgradeResult_zero, err)
               else (case brew_upgrade_lines (strings_Split_newline out) (False, []) of
                       (changed, packagesChanged) \<Rightarrow>
                         (\<lparr>Changed = changed, PackagesChanged = packagesChanged,
                            Messages = []\<rparr>, None))))"

definition brew_Install_err :: "'r Backend \<Rightarrow> PackageRef list \<Rightarrow> error option" where
  "brew_Install_err b pkgs =
     (case runner b of
        None \<Rightarrow> Some ErrNotSupported
      | Some r \<Rightarrow>
          if length pkgs = 0 then None
          else run_err r OperationInstall ''brew'' ''brew'' (''install'' # map Name pkgs))"

definition brew_Uninstall_err :: "'r Backend \<Rightarrow> PackageRef list \<Rightarrow> error option" where
  "brew_Uninstall_err b pkgs =
     (case runner b of
        None \<Rightarrow> Some ErrNotSupported
      | Some r \<Rightarrow>
          if length pkgs = 0 then None
          else run_err r OperationUninstall ''brew'' ''brew'' (''uninstall'' # map Name pkgs))"

text \<open>
  \<open>Search\<close> of brew does not look at the runner; \<open>formulae\<close> is what
  \<open>searchFormulae\<close> returns for the query through the HTTP client.
\<close>

definition brew_Search_err ::
  "'r Backend \<Rightarrow> (string \<Rightarrow> PackageRef list \<times> error option) \<Rightarrow> string \<Rightarrow> error option" where
  "brew_Search_err b formulae query =
     (if query = [] then None else snd (formulae query))"

definition brew_ListInstalled_err :: "'r Backend \<Rightarrow> error option" where
  "brew_ListInstalled_err b =
     (case runner b of
        None \<Rightarrow> Some ErrNotSupported
      | Some r \<Rightarrow> run_err r OperationListInstalled ''brew'' ''brew'' [''list'', ''--versions''])"

subsection \<open>flatpak (flatpak.go)\<close>

definition flatpak_Capabilities :: "'r Backend \<Rightarrow> Capability list" where
  "flatpak_Capabilities b =
     (let hasRunner = (runner b \<noteq> None) in
      [\<lparr>Operation = OperationSearch, Supported = hasRunner, Notes = ''via flatpak search CLI''\<rparr>,
       \<lparr>Operation = OperationUpdateMetadata, Supported = hasRunner, Notes = ''via flatpak update CLI''\<rparr>,
       \<lparr>Operation = OperationUpgradePackages, Supported = hasRunner, Notes = ''via flatpak update CLI''\<rparr>,
       \<lparr>Operation = OperationInstall, Supported = hasRunner, Notes = ''via flatpak install CLI''\<rparr>,
       \<lparr>Operation = OperationUninstall, Supported = hasRunner, Notes = ''via flatpak uninstall CLI''\<rparr>,
       \<lparr>Operation = OperationListInstalled, Supported = hasRunner, Notes = ''via flatpak list CLI''\<rparr>])"

definition flatpak_Update :: "'r Backend \<Rightarrow> UpdateResult \<times> error option" where
  "flatpak_Update b =
     (case runner b of
        None \<Rightarrow> (UpdateResult_zero, Some ErrNotSupported)
      | Some r \<Rightarrow>
          (case RunWithExternalError r OperationUpdateMetadata ''flatpak'' ''flatpak''
                  [''update'', ''--appstream''] of
             (out, errout, err) \<Rightarrow>
               if err \<noteq> None then (UpdateResult_zero, err)
               else let changed = (strings_Contains out ''Updating''
                                   \<or> strings_Contains out ''Updated'')
                    in (\<lparr>u_Changed = changed, u_Messages = []\<rparr>, None)))"

fun flatpak_upgrade_lines ::
  "string list \<Rightarrow> bool \<times> PackageRef list \<Rightarrow> bool \<times> PackageRef list" where
  "flatpak_upgrade_lines [] acc = acc"
| "flatpak_upgrade_lines (l # ls) (changed, packagesChanged) =
     (let line = strings_TrimSpace l in
      if strings_HasPrefix line ''Updating''
      then (let parts = strings_Fields line in
            if length parts \<ge> 2
            then flatpak_upgrade_lines ls
                   (True, packagesChanged @
                      [\<lparr>Name = parts ! 1, Namespace = [], Channel = [], Kind = ''app''\<rparr>])
            else flatpak_upgrade_lines ls (True, packagesChanged))
      else flatpak_upgrade_lines ls (changed, packagesChanged))"

definition flatpak_Upgrade :: "'r Backend \<Rightarrow> UpgradeResult \<times> error option" where
  "flatpak_Upgrade b =
     (case runner b of
        None \<Rightarrow> (UpgradeResult_zero, Some ErrNotSupported)
      | Some r \<Rightarrow>
          (case RunWithExternalError r OperationUpgradePackages ''flatpak'' ''flatpak''
                  [''update'', ''-y''] of
             (out, errout, err) \<Rightarrow>
               if err \<noteq> None then (UpgradeResult_zero, err)
               else (case flatpak_upgrade_lines (strings_Split_newline out) (False, []) of
                       (changed, packagesChanged) \<Rightarrow>
                         (\<lparr>Changed = changed, PackagesChanged = packagesChanged,
                            Messages = []\<rparr>, None))))"

definition flatpak_Install_err :: "'r Backend \<Rightarrow> PackageRef list \<Rightarrow> error option" where
  "flatpak_Install_err b pkgs =
     (case runner b of
        None \<Rightarrow> Some ErrNotSupported
      | Some r \<Rightarrow>
          if length pkgs = 0 then None
          else run_err r OperationInstall ''flatpak'' ''flatpak''
                 ([''install'', ''-y''] @ map Name pkgs))"

definition flatpak_Uninstall_err :: "'r Backend \<Rightarrow> PackageRef list \<Rightarrow> error option" where
  "flatpak_Uninstall_err b pkgs =
     (case runner b of
        None \<Rightarrow> Some ErrNotSupported
      | Some r \<Rightarrow>
          if length pkgs = 0 then None
          else run_err r OperationUninstall ''flatpak'' ''flatpak''
                 ([''uninstall'', ''-y''] @ map Name pkgs))"

definition flatpak_Search_err :: "'r Backend \<Rightarrow> string \<Rightarrow> error option" where
  "flatpak_Search_err b query =
     (case runner b of
        None \<Rightarrow> Some ErrNotSupported
      | Some r \<Rightarrow>
          if query = [] then None
          else run_err r OperationSearch ''flatpak'' ''flatpak'' [''search'', query])"

definition flatpak_ListInstalled_err :: "'r Backend \<Rightarrow> error option" where
  "flatpak_ListInstalled_err b =
     (case runner b of
        None \<Rightarrow> Some ErrNotSupported
      | Some r \<Rightarrow>
          run_err r OperationListInstalled ''flatpak'' ''flatpak''
            [''list'', ''--app'', ''--columns=name,application,version,installation''])"

subsection \<open>Invoking the operation that a capability names\<close>

text \<open>
  The three backends, and the arguments a caller passes besides the options.  The
  method that an \<open>Operation\<close> names is the one whose body hands that constant to
  \<open>RunWithExternalError\<close>; an \<open>Operation\<close> that names no method of the backend
  cannot be invoked (\<open>None\<close>).  The result is the error of the call.
\<close>

datatype backend_kind = Brew | Flatpak | Snap

record call_args =
  arg_pkgs :: "PackageRef list"
  arg_query :: string
  arg_formulae :: "string \<Rightarrow> PackageRef list \<times> error option"

definition Capabilities :: "backend_kind \<Rightarrow> 'r Backend \<Rightarrow> Capability list" where
  "Capabilities k b =
     (case k of Brew \<Rightarrow> brew_Capabilities b
              | Flatpak \<Rightarrow> flatpak_Capabilities b
              | Snap \<Rightarrow> snap_Capabilities b)"

definition invoke ::
  "backend_kind \<Rightarrow> 'r Backend \<Rightarrow> Operation \<Rightarrow> call_args \<Rightarrow> error option option" where
  "invoke k b operation a =
     (if operation = OperationUpdateMetadata then
        Some (case k of Brew \<Rightarrow> snd (brew_Update b)
                      | Flatpak \<Rightarrow> snd (flatpak_Update b)
                      | Snap \<Rightarrow> snd (snap_Update b))
      else if operation = OperationUpgradePackages then
        Some (case k of Brew \<Rightarrow> snd (brew_Upgrade b)
                      | Flatpak \<Rightarrow> snd (flatpak_Upgrade b)
                      | Snap \<Rightarrow> snd (snap_Upgrade b))
      else if operation = OperationInstall then
        Some (case k of Brew \<Rightarrow> brew_Install_err b (arg_pkgs a)
                      | Flatpak \<Rightarrow> flatpak_Install_err b (arg_pkgs a)
                      | Snap \<Rightarrow> snap_Install_err b (arg_pkgs a))
      else if operation = OperationUninstall then
        Some (case k of Brew \<Rightarrow> brew_Uninstall_err b (arg_pkgs a)
                      | Flatpak \<Rightarrow> flatpak_Uninstall_err b (arg_pkgs a)
                      | Snap \<Rightarrow> snap_Uninstall_err b (arg_pkgs a))
      else if operation = OperationSearch then
        Some (case k of Brew \<Rightarrow> brew_Search_err b (arg_formulae a) (arg_query a)
                      | Flatpak \<Rightarrow> flatpak_Search_err b (arg_query a)
                      | Snap \<Rightarrow> snap_Search_err b (arg_query a))
      else if operation = OperationListInstalled then
        Some (case k of Brew \<Rightarrow> brew_ListInstalled_err b
                      | Flatpak \<Rightarrow> flatpak_ListInstalled_err b
                      | Snap \<Rightarrow> snap_ListInstalled_err b)
      else None)"

subsection \<open>Reporting from a backend method\<close>

text \<open>
  \<open>Update\<close> of brew once more, now with the calls it makes on its helper: what
  it returns, and what it delivers to the reporter.  The five environments are
  those of its five calls on the helper, in order; \<open>EndAction\<close> is deferred and
  runs last, after the returned values are set.
\<close>

definition brew_Update_reporting ::
  "'r Backend \<Rightarrow> 'r option \<Rightarrow> env \<Rightarrow> env \<Rightarrow> env \<Rightarrow> env \<Rightarrow> env \<Rightarrow>
   (UpdateResult \<times> error option) \<times> 'r delivery list" where
  "brew_Update_reporting b override e1 e2 e3 e4 e5 =
     (case runner b of
        None \<Rightarrow> ((UpdateResult_zero, Some ErrNotSupported), [])
      | Some r \<Rightarrow>
          let helper = NewProgressHelper (progress b) override;
              (actionID, h1, out1) = BeginAction ''Update'' e1 helper;
              (taskID, h2, out2) = BeginTask ''Running brew update'' e2 h1;
              (out, errout, err) =
                 RunWithExternalError r OperationUpdateMetadata ''brew'' ''brew'' [''update''];
              (h3, out3) = EndTask e3 h2
          in (case err of
                Some failure \<Rightarrow>
                  let (h4, out4) = Error (''Update failed: '' @ Error_text failure) e4 h3;
                      (h5, out5) = EndAction e5 h4
                  in ((UpdateResult_zero, err), out1 @ out2 @ out3 @ out4 @ out5)
              | None \<Rightarrow>
                  let changed = (strings_Contains out ''Updated''
                                 \<or> strings_Contains out ''Homebrew updated'');
                      (h4, out4) = Info ''Update completed'' e4 h3;
                      (h5, out5) = EndAction e5 h4
                  in ((\<lparr>u_Changed = changed, u_Messages = []\<rparr>, None),
                      out1 @ out2 @ out3 @ out4 @ out5)))"

text \<open>
  The shape every method of the three backends has, with the calls between
  \<open>BeginAction\<close> and the deferred \<open>EndAction\<close> given as a script and the values
  the method returns given as \<open>ret\<close>: the calls on the helper return nothing that
  the method could put into them.  A backend operation that emits some warnings or
  error messages and returns a nil error is \<open>scripted_operation\<close> with a script
  of such calls and \<open>ret = (result, None)\<close>.
\<close>

definition scripted_operation ::
  "'r Backend \<Rightarrow> 'r option \<Rightarrow> string \<Rightarrow> env \<Rightarrow> (call \<times> env) list \<Rightarrow> env \<Rightarrow>
   'a \<times> error option \<Rightarrow> ('a \<times> error option) \<times> 'r delivery list" where
  "scripted_operation b override name e1 script e2 ret =
     (let helper = NewProgressHelper (progress b) override;
          begun = exec_state (CallBeginAction name) e1 helper;
          finished = state_after script begun
      in (ret,
          exec_out (CallBeginAction name) e1 helper
          @ deliveries script begun
          @ exec_out CallEndAction e2 finished))"

section \<open>Properties\<close>

subsection \<open>Facts about the constants and about runs of the helper\<close>

lemmas operation_defs =
  OperationUpdateMetadata_def OperationUpgradePackages_def OperationInstall_def
  OperationUninstall_def OperationSearch_def OperationListInstalled_def

lemma IsNotSupported_sentinel: "IsNotSupported (Some ErrNotSupported)"
  by (simp add: IsNotSupported_def errors_Is_def is_loop.simps)

lemmas helper_defs =
  BeginAction_def EndAction_def BeginTask_def EndTask_def BeginStep_def EndStep_def
  message_def Info_def Warning_def Error_def

lemma exec_reporter: "reporter (exec_state c e h) = reporter h"
  by (cases c) (auto simp: exec_state_def helper_defs Let_def split: option.splits)

lemma state_after_reporter: "reporter (state_after cs h) = reporter h"
  by (induction cs arbitrary: h) (auto simp: exec_reporter)

lemma exec_inactive:
  "reporter h = None \<Longrightarrow> exec c e h = (if is_begin c then Some [] else None, h, [])"
  by (cases c) (auto simp: helper_defs)

lemma state_after_inactive: "reporter h = None \<Longrightarrow> state_after cs h = h"
  by (induction cs arbitrary: h) (auto simp: exec_state_def exec_inactive)





lemma exec_path:
  "reporter h = Some r \<Longrightarrow> path_of (exec_state c e h) = spec_step c e (path_of h)"
  by (cases c)
     (auto simp: exec_state_def helper_defs path_of_def no_open_def id_or_empty_def Let_def
           split: option.splits)

lemma state_after_path:
  "reporter h = Some r \<Longrightarrow> path_of (state_after cs h) = spec_open cs (path_of h)"
  by (induction cs arbitrary: h) (auto simp: exec_path exec_reporter)

lemma path_of_New: "path_of (NewProgressHelper d ov) = no_open"
  by (simp add: path_of_def NewProgressHelper_def no_open_def)

lemma reachable_active:
  assumes "h = state_after pre (NewProgressHelper d ov)"
    and "currentAction h \<noteq> None \<or> currentTask h \<noteq> None \<or> currentStep h \<noteq> None"
  shows "reporter h \<noteq> None"
proof
  assume "reporter h = None"
  then have "reporter (NewProgressHelper d ov) = None"
    using assms(1) by (simp add: state_after_reporter)
  then have "h = NewProgressHelper d ov"
    using assms(1) by (simp add: state_after_inactive)
  then show False using assms(2) by (simp add: NewProgressHelper_def)
qed

lemma state_after_append:
  "state_after (xs @ ys) h = state_after ys (state_after xs h)"
  by (induction xs arbitrary: h) auto

lemma deliveries_append:
  "deliveries (xs @ ys) h = deliveries xs h @ deliveries ys (state_after xs h)"
  by (induction xs arbitrary: h) auto

lemma message_exec:
  "is_message c \<Longrightarrow> reporter h = Some r \<Longrightarrow>
   exec_state c e h = h \<and> (\<exists>m. exec_out c e h = [(r, OnMessage m)])"
  by (cases c) (auto simp: exec_state_def exec_out_def helper_defs Let_def)

lemma messages_run:
  "\<forall>(c, e) \<in> set ms. is_message c \<Longrightarrow> reporter h = Some r \<Longrightarrow>
   state_after ms h = h \<and> length (deliveries ms h) = length ms
   \<and> (\<forall>x \<in> set (deliveries ms h). \<exists>m. x = (r, OnMessage m))"
proof (induction ms)
  case Nil
  then show ?case by simp
next
  case (Cons x ms)
  obtain c e where x: "x = (c, e)" by (cases x)
  with Cons.prems have "is_message c" by simp
  from message_exec [OF this Cons.prems(2), of e]
  obtain m where "exec_state c e h = h" and "exec_out c e h = [(r, OnMessage m)]" by blast
  then show ?case using Cons x by auto
qed

lemma types_exec_nested:
  assumes "c = CallEndAction \<longrightarrow>
             currentAction h = None \<or> (currentTask h = None \<and> currentStep h = None)"
    and "c = CallEndTask \<longrightarrow> currentTask h = None \<or> currentStep h = None"
  shows "types_exec c e h = exec c e h"
proof (cases c)
  case CallEndAction
  have same: "h\<lparr>currentAction := None, currentTask := None, currentStep := None\<rparr>
                = h\<lparr>currentAction := None\<rparr>"
    if "currentTask h = None" "currentStep h = None"
    using that by (cases h) simp
  show ?thesis
    using assms(1) CallEndAction same
    by (auto simp: EndAction_def types_EndAction_def Let_def split: option.splits)
next
  case CallEndTask
  have same: "h\<lparr>currentTask := None, currentStep := None\<rparr> = h\<lparr>currentTask := None\<rparr>"
    if "currentStep h = None"
    using that by (cases h) simp
  show ?thesis
    using assms(2) CallEndTask same
    by (auto simp: EndTask_def types_EndTask_def Let_def split: option.splits)
qed (auto simp: helper_defs types_BeginAction_def types_BeginTask_def types_BeginStep_def
      types_EndStep_def types_message_def types_Info_def types_Warning_def types_Error_def
      Let_def split: option.splits)

lemma helpers_agree_when_nested:
  "well_nested cs h \<Longrightarrow> types_deliveries cs h = deliveries cs h"
proof (induction cs arbitrary: h)
  case Nil
  then show ?case by simp
next
  case (Cons x cs)
  obtain c e where x: "x = (c, e)" by (cases x)
  have "types_exec c e h = exec c e h"
    using Cons.prems x by (intro types_exec_nested) auto
  then show ?case
    using Cons x by (simp add: exec_state_def exec_out_def)
qed

lemma hexdigit_inj: "n < 16 \<Longrightarrow> m < 16 \<Longrightarrow> hexdigit n = hexdigit m \<longleftrightarrow> n = m"
  unfolding hexdigit_def by (rule nth_eq_iff_index_eq) simp_all

lemma of_char_less: "(of_char b :: nat) < 256"
  by (rule order_less_le_trans [OF _ order_refl], cases b) (simp add: of_char_def)

lemma hex_byte_inj [simp]: "hex_byte a = hex_byte b \<longleftrightarrow> a = b"
proof
  assume h: "hex_byte a = hex_byte b"
  let ?x = "of_char a :: nat" and ?y = "of_char b :: nat"
  have lt: "?x div 16 < 16" "?y div 16 < 16" "?x mod 16 < 16" "?y mod 16 < 16"
    using of_char_less [of a] of_char_less [of b] by (simp_all add: div_less_iff_less_mult)
  from h have "?x div 16 = ?y div 16" "?x mod 16 = ?y mod 16"
    using lt by (simp_all add: hex_byte_def hexdigit_inj)
  then have "?x = ?y"
    by (metis div_mult_mod_eq)
  then show "a = b" by simp
qed simp

lemma hex_byte_append [simp]: "hex_byte a @ xs = hex_byte b @ ys \<longleftrightarrow> a = b \<and> xs = ys"
proof -
  have "length (hex_byte a) = length (hex_byte b)" by (simp add: hex_byte_def)
  then show ?thesis by simp
qed

lemma length_hex_byte [simp]: "length (hex_byte b) = 2"
  by (simp add: hex_byte_def)



lemma IsX_nil: "\<not> IsNotSupported None" "\<not> IsNotAvailable None" "\<not> IsExternalFailure None"
  by (simp_all add: IsNotSupported_def IsNotAvailable_def IsExternalFailure_def errors_Is_def
      errors_As_ExternalFailureError_def)

lemma brew_Update_reporting_result:
  "fst (brew_Update_reporting b override e1 e2 e3 e4 e5) = brew_Update b"
  by (auto simp: brew_Update_reporting_def brew_Update_def Let_def
      split: option.splits prod.splits)

lemma brew_Update_reporting_failure:
  assumes "runner b = Some r"
    and "r ''brew'' [''update''] = (out, errout, Some cause)"
    and "reporter (NewProgressHelper (progress b) override) = Some rep"
  shows "\<exists>failure evs1 m a.
           brew_Update_reporting b override e1 e2 e3 e4 e5 =
             ((UpdateResult_zero, Some failure), evs1 @ [(rep, OnMessage m), (rep, OnAction a)])
           \<and> m_Severity m = SeverityError \<and> IsExternalFailure (Some failure)"
  using assms
  by (auto simp: brew_Update_reporting_def RunWithExternalError_def helper_defs Let_def
      NewProgressHelper_def IsExternalFailure_def errors_As_ExternalFailureError_def
      as_loop.simps split: option.splits prod.splits)

lemma brew_Update_is_scripted:
  assumes "runner b = Some r"
  shows "brew_Update_reporting b override e1 e2 e3 e4 e5 =
           scripted_operation b override ''Update'' e1
             [(CallBeginTask ''Running brew update'', e2), (CallEndTask, e3),
              (case snd (brew_Update b) of
                 Some failure \<Rightarrow> CallError (''Update failed: '' @ Error_text failure)
               | None \<Rightarrow> CallInfo ''Update completed'', e4)]
             e5 (brew_Update b)"
  using assms
  by (auto simp: brew_Update_reporting_def brew_Update_def scripted_operation_def
      exec_state_def exec_out_def Let_def split: option.splits prod.splits)

subsection \<open>Claims\<close>

text \<open>
  Claim C1.  An \<open>UpdateResult\<close> has no list of packages at all (the record above).
  For \<open>UpgradeResult\<close> the claim is what the comments of the struct and the
  contract tests say, and the backends break it.  \<open>Upgrade\<close> of snap resets
  \<open>changed\<close> on the words "All snaps up to date" but keeps the packages it has
  collected: \<open>Changed\<close> is false and the list is not empty.  \<open>Upgrade\<close> of brew and
  of flatpak set \<open>changed\<close> before they look for the package name on the line:
  \<open>Changed\<close> is true and the list is empty.
\<close>

theorem Upgrade_Changed_disagrees:
  "snap_Upgrade \<lparr>runner = Some (\<lambda>name args.
        (''core refreshed'' @ [CHR 0x0A] @ ''All snaps up to date'', [], None)),
      progress = (None :: nat option)\<rparr>
   = (\<lparr>Changed = False,
       PackagesChanged = [\<lparr>Name = ''core'', Namespace = [], Channel = [], Kind = ''snap''\<rparr>],
       Messages = []\<rparr>, None)
   \<and> brew_Upgrade \<lparr>runner = Some (\<lambda>name args. (''==> Upgrading'', [], None)),
      progress = (None :: nat option)\<rparr>
   = (\<lparr>Changed = True, PackagesChanged = [], Messages = []\<rparr>, None)
   \<and> flatpak_Upgrade \<lparr>runner = Some (\<lambda>name args. (''Updating'', [], None)),
      progress = (None :: nat option)\<rparr>
   = (\<lparr>Changed = True, PackagesChanged = [], Messages = []\<rparr>, None)"
  by (simp add: snap_Upgrade_def brew_Upgrade_def flatpak_Upgrade_def RunWithExternalError_def
      strings_Split_newline_def strings_Fields_def strings_TrimSpace_def strings_HasPrefix_def
      isSpace_def Let_def)

text \<open>
  Claim C2.  In any state a helper reaches from \<open>NewProgressHelper\<close>: when an action
  is current and the clock does not read the zero time, \<open>EndAction\<close> delivers that
  same action (same identifier) with its end time stamped, hence not zero, and leaves
  no current action, task or step; a \<open>BeginTask\<close> that follows an \<open>EndAction\<close> on
  a helper with a reporter delivers a task whose \<open>ActionID\<close> is empty; and when a
  task is current, \<open>EndTask\<close> delivers it stamped and leaves no current task or
  step.
\<close>

theorem EndAction_cascades:
  assumes "h = state_after pre (NewProgressHelper d ov)"
  shows "(currentAction h = Some a \<and> time_Now e \<noteq> zero_time \<longrightarrow>
            (\<exists>r. reporter h = Some r
               \<and> EndAction e h =
                   (h\<lparr>currentAction := None, currentTask := None, currentStep := None\<rparr>,
                    [(r, OnAction (a\<lparr>a_EndedAt := time_Now e\<rparr>))])
               \<and> a_ID (a\<lparr>a_EndedAt := time_Now e\<rparr>) = a_ID a
               \<and> a_EndedAt (a\<lparr>a_EndedAt := time_Now e\<rparr>) \<noteq> zero_time))
       \<and> (reporter h = Some r' \<longrightarrow>
            (\<exists>t. snd (snd (BeginTask name e' (fst (EndAction e h)))) = [(r', OnTask t)]
               \<and> t_ActionID t = []))
       \<and> (currentTask h = Some t' \<longrightarrow>
            (\<exists>r. reporter h = Some r
               \<and> EndTask e h =
                   (h\<lparr>currentTask := None, currentStep := None\<rparr>,
                    [(r, OnTask (t'\<lparr>t_EndedAt := time_Now e\<rparr>))])))"
proof (intro conjI impI)
  assume a: "currentAction h = Some a \<and> time_Now e \<noteq> zero_time"
  then obtain r where r: "reporter h = Some r"
    using reachable_active [OF assms] by auto
  show "\<exists>r. reporter h = Some r
           \<and> EndAction e h =
               (h\<lparr>currentAction := None, currentTask := None, currentStep := None\<rparr>,
                [(r, OnAction (a\<lparr>a_EndedAt := time_Now e\<rparr>))])
           \<and> a_ID (a\<lparr>a_EndedAt := time_Now e\<rparr>) = a_ID a
           \<and> a_EndedAt (a\<lparr>a_EndedAt := time_Now e\<rparr>) \<noteq> zero_time"
    using a r by (simp add: EndAction_def)
next
  assume r: "reporter h = Some r'"
  show "\<exists>t. snd (snd (BeginTask name e' (fst (EndAction e h)))) = [(r', OnTask t)]
           \<and> t_ActionID t = []"
    using r by (auto simp: EndAction_def BeginTask_def Let_def split: option.splits)
next
  assume t: "currentTask h = Some t'"
  then obtain r where r: "reporter h = Some r"
    using reachable_active [OF assms] by auto
  show "\<exists>r. reporter h = Some r
           \<and> EndTask e h =
               (h\<lparr>currentTask := None, currentStep := None\<rparr>,
                [(r, OnTask (t'\<lparr>t_EndedAt := time_Now e\<rparr>))])"
    using t r by (simp add: EndTask_def)
qed

theorem EndAction_cascades_witness:
  "EndAction \<lparr>uuid_New = [], time_Now = 4\<rparr>
        (state_after [(CallBeginAction ''Install'', \<lparr>uuid_New = ''a1'', time_Now = 1\<rparr>),
                      (CallBeginTask ''Download'', \<lparr>uuid_New = ''t1'', time_Now = 2\<rparr>),
                      (CallBeginStep ''Fetch'', \<lparr>uuid_New = ''s1'', time_Now = 3\<rparr>)]
            (NewProgressHelper None (Some (7::nat))))
     = (\<lparr>reporter = Some 7, currentAction = None, currentTask = None, currentStep = None\<rparr>,
        [(7, OnAction \<lparr>a_ID = ''a1'', a_Name = ''Install'', a_StartedAt = 1, a_EndedAt = 4\<rparr>)])
   \<and> EndTask \<lparr>uuid_New = [], time_Now = 4\<rparr>
        (state_after [(CallBeginAction ''Install'', \<lparr>uuid_New = ''a1'', time_Now = 1\<rparr>),
                      (CallBeginTask ''Download'', \<lparr>uuid_New = ''t1'', time_Now = 2\<rparr>),
                      (CallBeginStep ''Fetch'', \<lparr>uuid_New = ''s1'', time_Now = 3\<rparr>)]
            (NewProgressHelper None (Some (7::nat))))
     = (\<lparr>reporter = Some 7,
         currentAction = Some \<lparr>a_ID = ''a1'', a_Name = ''Install'', a_StartedAt = 1, a_EndedAt = 0\<rparr>,
         currentTask = None, currentStep = None\<rparr>,
        [(7, OnTask \<lparr>t_ID = ''t1'', t_ActionID = ''a1'', t_Name = ''Download'',
                     t_StartedAt = 2, t_EndedAt = 4\<rparr>)])
   \<and> (\<exists>t. snd (snd (BeginTask ''Verify'' \<lparr>uuid_New = ''t2'', time_Now = 5\<rparr>
          (fst (EndAction \<lparr>uuid_New = [], time_Now = 4\<rparr>
            (state_after [(CallBeginAction ''Install'', \<lparr>uuid_New = ''a1'', time_Now = 1\<rparr>),
                          (CallBeginTask ''Download'', \<lparr>uuid_New = ''t1'', time_Now = 2\<rparr>),
                          (CallBeginStep ''Fetch'', \<lparr>uuid_New = ''s1'', time_Now = 3\<rparr>)]
              (NewProgressHelper None (Some (7::nat)))))))) = [(7, OnTask t)]
        \<and> t_ActionID t = [])"
proof -
  let ?cs = "[(CallBeginAction ''Install'', \<lparr>uuid_New = ''a1'', time_Now = 1\<rparr>),
              (CallBeginTask ''Download'', \<lparr>uuid_New = ''t1'', time_Now = 2\<rparr>),
              (CallBeginStep ''Fetch'', \<lparr>uuid_New = ''s1'', time_Now = 3\<rparr>)]"
  let ?a = "\<lparr>a_ID = ''a1'', a_Name = ''Install'', a_StartedAt = 1, a_EndedAt = 0\<rparr>"
  let ?t = "\<lparr>t_ID = ''t1'', t_ActionID = ''a1'', t_Name = ''Download'',
             t_StartedAt = 2, t_EndedAt = 0\<rparr>"
  let ?e = "\<lparr>uuid_New = [], time_Now = 4\<rparr>"
  let ?h = "state_after ?cs (NewProgressHelper None (Some (7::nat)))"
  have st: "?h = \<lparr>reporter = Some 7, currentAction = Some ?a, currentTask = Some ?t,
       currentStep = Some \<lparr>s_ID = ''s1'', s_TaskID = ''t1'', s_Name = ''Fetch'',
                             s_StartedAt = 3, s_EndedAt = 0\<rparr>\<rparr>"
    by (simp add: exec_state_def NewProgressHelper_def helper_defs zero_time_def Let_def)
  have hyp: "currentAction ?h = Some ?a \<and> time_Now ?e \<noteq> zero_time"
    "reporter ?h = Some 7" "currentTask ?h = Some ?t"
    unfolding st by (simp_all add: zero_time_def)
  note inst = EndAction_cascades [OF refl, of ?cs None "Some 7" ?a ?e 7
      "''Verify''" "\<lparr>uuid_New = ''t2'', time_Now = 5\<rparr>" ?t]
  from inst hyp(1)
  obtain r where "EndAction ?e ?h =
      (?h\<lparr>currentAction := None, currentTask := None, currentStep := None\<rparr>,
       [(r, OnAction (?a\<lparr>a_EndedAt := time_Now ?e\<rparr>))])"
    and "reporter ?h = Some r"
    by blast
  then have one: "EndAction ?e ?h =
      (\<lparr>reporter = Some 7, currentAction = None, currentTask = None, currentStep = None\<rparr>,
       [(7, OnAction \<lparr>a_ID = ''a1'', a_Name = ''Install'', a_StartedAt = 1, a_EndedAt = 4\<rparr>)])"
    unfolding st by simp
  from inst hyp(3)
  obtain r' where "EndTask ?e ?h =
      (?h\<lparr>currentTask := None, currentStep := None\<rparr>,
       [(r', OnTask (?t\<lparr>t_EndedAt := time_Now ?e\<rparr>))])"
    and "reporter ?h = Some r'"
    by blast
  then have two: "EndTask ?e ?h =
      (\<lparr>reporter = Some 7, currentAction = Some ?a, currentTask = None, currentStep = None\<rparr>,
       [(7, OnTask \<lparr>t_ID = ''t1'', t_ActionID = ''a1'', t_Name = ''Download'',
                    t_StartedAt = 2, t_EndedAt = 4\<rparr>)])"
    unfolding st by simp
  from inst hyp(2)
  have three: "\<exists>t. snd (snd (BeginTask ''Verify'' \<lparr>uuid_New = ''t2'', time_Now = 5\<rparr>
          (fst (EndAction ?e ?h)))) = [(7, OnTask t)] \<and> t_ActionID t = []"
    by blast
  from one two three show ?thesis by blast
qed

text \<open>
  Claim C3.  Each of the three predicates is false on nil and on an unrelated value
  of \<open>errors.New\<close>; each is true on the bare form of its kind (the sentinel, or a
  plain \<open>ExternalFailureError\<close>) and on the struct that wraps its sentinel; and
  wrapping any error with added context by \<open>fmt.Errorf\<close> and \<open>%w\<close> changes none
  of the three answers.
\<close>

theorem error_predicates:
  "\<not> IsNotSupported None \<and> \<not> IsNotAvailable None \<and> \<not> IsExternalFailure None
   \<and> \<not> IsNotSupported (Some (ErrorString s)) \<and> \<not> IsNotAvailable (Some (ErrorString s))
   \<and> \<not> IsExternalFailure (Some (ErrorString s))
   \<and> IsNotSupported (Some ErrNotSupported) \<and> IsNotAvailable (Some ErrNotAvailable)
   \<and> IsExternalFailure (Some (ExternalFailureError operation backend out errout cause))
   \<and> IsNotSupported (Some (NotSupportedError operation backend reason))
   \<and> IsNotAvailable (Some (NotAvailableError backend reason))
   \<and> IsNotSupported (Some (WrapError msg err)) = IsNotSupported (Some err)
   \<and> IsNotAvailable (Some (WrapError msg err)) = IsNotAvailable (Some err)
   \<and> IsExternalFailure (Some (WrapError msg err)) = IsExternalFailure (Some err)"
  by (simp add: IsNotSupported_def IsNotAvailable_def IsExternalFailure_def errors_Is_def
      errors_As_ExternalFailureError_def is_loop.simps as_loop.simps)

theorem error_predicates_witness:
  "IsNotSupported (Some (WrapError ''install'' (NotSupportedError OperationInstall ''stub'' [])))
   \<and> \<not> IsNotAvailable (Some (WrapError ''install'' (NotSupportedError OperationInstall ''stub'' [])))
   \<and> IsExternalFailure (Some (WrapError ''run'' (ExternalFailureError OperationInstall ''test'' [] [] None)))
   \<and> \<not> IsNotSupported (Some (ErrorString ''operation not supported''))"
  using error_predicates [of "''operation not supported''" OperationInstall "''stub''" "[]" "[]" None "[]"
      "''install''" "NotSupportedError OperationInstall ''stub'' []"]
    error_predicates [of "''operation not supported''" OperationInstall "''test''" "[]" "[]" None "[]"
      "''run''" "ExternalFailureError OperationInstall ''test'' [] [] None"]
  by (simp add: IsNotAvailable_def errors_Is_def is_loop.simps)

text \<open>
  Claim C4.  For each of the three backends, whenever an entry of its capability list
  is marked unsupported, invoking the operation the entry names returns an error on
  which \<open>IsNotSupported\<close> holds, whatever the arguments.
\<close>

theorem unsupported_capability_not_supported:
  assumes "c \<in> set (Capabilities k b)" and "\<not> Supported c"
  shows "\<exists>err. invoke k b (Operation c) a = Some err \<and> IsNotSupported err"
proof -
  have none: "runner b = None"
    using assms
    by (cases k) (auto simp: Capabilities_def brew_Capabilities_def flatpak_Capabilities_def
        snap_Capabilities_def Let_def)
  have op: "Operation c \<in> {OperationSearch, OperationUpdateMetadata, OperationUpgradePackages,
                            OperationInstall, OperationUninstall, OperationListInstalled}"
    using assms(1)
    by (cases k) (auto simp: Capabilities_def brew_Capabilities_def flatpak_Capabilities_def
        snap_Capabilities_def Let_def)
  have brew: "Operation c \<noteq> OperationSearch" if "k = Brew"
    using assms that
    by (auto simp: Capabilities_def brew_Capabilities_def Let_def operation_defs)
  show ?thesis
  proof (cases k)
    case Brew
    with op brew none show ?thesis
      by (auto simp: invoke_def operation_defs IsNotSupported_sentinel
          brew_Update_def brew_Upgrade_def brew_Install_err_def brew_Uninstall_err_def
          brew_ListInstalled_err_def)
  next
    case Flatpak
    with op none show ?thesis
      by (auto simp: invoke_def operation_defs IsNotSupported_sentinel
          flatpak_Update_def flatpak_Upgrade_def flatpak_Install_err_def
          flatpak_Uninstall_err_def flatpak_Search_err_def flatpak_ListInstalled_err_def)
  next
    case Snap
    with op none show ?thesis
      by (auto simp: invoke_def operation_defs IsNotSupported_sentinel
          snap_Update_def snap_Upgrade_def snap_Install_err_def
          snap_Uninstall_err_def snap_Search_err_def snap_ListInstalled_err_def)
  qed
qed

theorem unsupported_capability_not_supported_witness:
  "\<exists>err. invoke Snap \<lparr>runner = None, progress = (None :: nat option)\<rparr> OperationUpgradePackages
            \<lparr>arg_pkgs = [], arg_query = [], arg_formulae = (\<lambda>q. ([], None))\<rparr> = Some err
         \<and> IsNotSupported err"
  using unsupported_capability_not_supported
    [of "\<lparr>Operation = OperationUpgradePackages, Supported = False,
           Notes = ''via snap refresh CLI''\<rparr>"
        Snap "\<lparr>runner = None, progress = (None :: nat option)\<rparr>"
        "\<lparr>arg_pkgs = [], arg_query = [], arg_formulae = (\<lambda>q. ([], None))\<rparr>"]
  by (simp add: Capabilities_def snap_Capabilities_def)




text \<open>
  Claim C6.  After any sequence \<open>pre\<close> of calls on a helper with a reporter, let
  \<open>p\<close> be the open path of the data model after \<open>pre\<close>.  A \<open>BeginTask\<close> delivers a
  task whose \<open>ActionID\<close> is the identifier of the open action, empty when none is
  open, and a \<open>BeginStep\<close> a step whose \<open>TaskID\<close> is that of the open task; a task
  delivered by \<open>EndTask\<close> is the open task with the \<open>ActionID\<close> recorded when it
  began, and likewise for \<open>EndStep\<close>; a message carries the identifiers of the open
  action, task and step, each empty when nothing is open at that level.
\<close>

theorem correlation_ids:
  assumes "h = state_after pre (NewProgressHelper d ov)"
    and "reporter h = Some r"
    and "p = spec_open pre no_open"
  shows "exec_out (CallBeginTask name) e h =
           [(r, OnTask \<lparr>t_ID = uuid_New e, t_ActionID = id_or_empty (open_action p),
                        t_Name = name, t_StartedAt = time_Now e, t_EndedAt = zero_time\<rparr>)]
       \<and> exec_out (CallBeginStep name) e h =
           [(r, OnStep \<lparr>s_ID = uuid_New e, s_TaskID = id_or_empty (map_option fst (open_task p)),
                        s_Name = name, s_StartedAt = time_Now e, s_EndedAt = zero_time\<rparr>)]
       \<and> (\<forall>t. (r, OnTask t) \<in> set (exec_out CallEndTask e h) \<longrightarrow>
                open_task p = Some (t_ID t, t_ActionID t))
       \<and> (\<forall>s. (r, OnStep s) \<in> set (exec_out CallEndStep e h) \<longrightarrow>
                open_step p = Some (s_ID s, s_TaskID s))
       \<and> (\<forall>c severity. (c, severity) \<in> {(CallInfo txt, SeverityInfo),
                                           (CallWarning txt, SeverityWarning),
                                           (CallError txt, SeverityError)} \<longrightarrow>
              exec_out c e h =
                [(r, OnMessage \<lparr>m_Severity = severity, m_Text = txt, m_Timestamp = time_Now e,
                                 m_ActionID = id_or_empty (open_action p),
                                 m_TaskID = id_or_empty (map_option fst (open_task p)),
                                 m_StepID = id_or_empty (map_option fst (open_step p))\<rparr>)])"
proof -
  have "reporter (NewProgressHelper d ov) = Some r"
    using assms(1,2) by (simp add: state_after_reporter)
  then have p: "path_of h = p"
    using assms(1,3) by (simp add: state_after_path path_of_New)
  have a: "open_action p = map_option a_ID (currentAction h)"
    and t: "open_task p = map_option (\<lambda>t. (t_ID t, t_ActionID t)) (currentTask h)"
    and s: "open_step p = map_option (\<lambda>s. (s_ID s, s_TaskID s)) (currentStep h)"
    using p by (auto simp: path_of_def)
  show ?thesis
    using assms(2)
    by (auto simp: a t s exec_out_def helper_defs id_or_empty_def Let_def split: option.splits)
qed

theorem correlation_ids_witness:
  "exec_out (CallBeginStep ''Fetch'') \<lparr>uuid_New = ''s1'', time_Now = 3\<rparr>
     (state_after [(CallBeginAction ''Install'', \<lparr>uuid_New = ''a1'', time_Now = 1\<rparr>),
                   (CallBeginTask ''Download'', \<lparr>uuid_New = ''t1'', time_Now = 2\<rparr>)]
        (NewProgressHelper None (Some (7::nat))))
   = [(7, OnStep \<lparr>s_ID = ''s1'', s_TaskID = ''t1'', s_Name = ''Fetch'',
                   s_StartedAt = 3, s_EndedAt = 0\<rparr>)]
   \<and> exec_out (CallWarning ''slow mirror'') \<lparr>uuid_New = [], time_Now = 3\<rparr>
     (state_after [(CallBeginAction ''Install'', \<lparr>uuid_New = ''a1'', time_Now = 1\<rparr>),
                   (CallBeginTask ''Download'', \<lparr>uuid_New = ''t1'', time_Now = 2\<rparr>)]
        (NewProgressHelper None (Some (7::nat))))
   = [(7, OnMessage \<lparr>m_Severity = SeverityWarning, m_Text = ''slow mirror'', m_Timestamp = 3,
                      m_ActionID = ''a1'', m_TaskID = ''t1'', m_StepID = []\<rparr>)]"
proof -
  let ?pre = "[(CallBeginAction ''Install'', \<lparr>uuid_New = ''a1'', time_Now = 1\<rparr>),
               (CallBeginTask ''Download'', \<lparr>uuid_New = ''t1'', time_Now = 2\<rparr>)]"
  let ?h = "state_after ?pre (NewProgressHelper None (Some (7::nat)))"
  have r: "reporter ?h = Some 7"
    by (simp add: exec_reporter NewProgressHelper_def)
  have p: "spec_open ?pre no_open =
             \<lparr>open_action = Some ''a1'', open_task = Some (''t1'', ''a1''), open_step = None\<rparr>"
    by (simp add: no_open_def id_or_empty_def)
  from correlation_ids [OF refl r refl, of "''Fetch''" "\<lparr>uuid_New = ''s1'', time_Now = 3\<rparr>"]
  have step: "exec_out (CallBeginStep ''Fetch'') \<lparr>uuid_New = ''s1'', time_Now = 3\<rparr> ?h =
      [(7, OnStep \<lparr>s_ID = ''s1'', s_TaskID = ''t1'', s_Name = ''Fetch'',
                    s_StartedAt = 3, s_EndedAt = 0\<rparr>)]"
    unfolding p by (simp add: id_or_empty_def zero_time_def)
  from correlation_ids [OF refl r refl, of "''Fetch''" "\<lparr>uuid_New = [], time_Now = 3\<rparr>"
      "''slow mirror''"]
  have msg: "exec_out (CallWarning ''slow mirror'') \<lparr>uuid_New = [], time_Now = 3\<rparr> ?h =
      [(7, OnMessage \<lparr>m_Severity = SeverityWarning, m_Text = ''slow mirror'', m_Timestamp = 3,
                       m_ActionID = ''a1'', m_TaskID = ''t1'', m_StepID = []\<rparr>)]"
    unfolding p by (simp add: id_or_empty_def)
  from step msg show ?thesis by (rule conjI)
qed

text \<open>
  Claim C7.  \<open>Info\<close>, \<open>Warning\<close> and \<open>Error\<close> return nothing but the unchanged
  helper: they have no result through which to signal failure and leave the current
  action, task and step as they were.  On a helper with a reporter each delivers
  exactly one message, of its own severity and with the given text (without a
  reporter every operation of the helper is a no-op, and they deliver nothing).  A
  backend operation returns to its caller the result and error that its own code
  sets, whatever it emitted through its helper: when it emits any number of messages
  of any severities and returns a nil error, the caller gets that result and the nil
  error, on which none of the three error predicates holds, and the reporter gets the
  action, one message for each call, and the ended action.  \<open>Update\<close> of brew
  returns the same with its calls on the helper as without them, for every reporter.
\<close>

theorem messages_never_fail:
  "fst (Info txt e h) = h \<and> fst (Warning txt e h) = h \<and> fst (Error txt e h) = h
   \<and> (reporter h = Some r \<longrightarrow>
        (\<exists>m. snd (Info txt e h) = [(r, OnMessage m)]
            \<and> m_Severity m = SeverityInfo \<and> m_Text m = txt)
        \<and> (\<exists>m. snd (Warning txt e h) = [(r, OnMessage m)]
            \<and> m_Severity m = SeverityWarning \<and> m_Text m = txt)
        \<and> (\<exists>m. snd (Error txt e h) = [(r, OnMessage m)]
            \<and> m_Severity m = SeverityError \<and> m_Text m = txt))
   \<and> (reporter h = None \<longrightarrow>
        snd (Info txt e h) = [] \<and> snd (Warning txt e h) = [] \<and> snd (Error txt e h) = [])
   \<and> fst (scripted_operation b ov name e1 script e2 (res, err)) = (res, err)
   \<and> (reporter (NewProgressHelper (progress b) ov) = Some rep
        \<and> (\<forall>(c, e) \<in> set ms. is_message c) \<longrightarrow>
        fst (scripted_operation b ov name e1 ms e2 (res, None)) = (res, None)
        \<and> \<not> IsNotSupported (snd (fst (scripted_operation b ov name e1 ms e2 (res, None))))
        \<and> \<not> IsNotAvailable (snd (fst (scripted_operation b ov name e1 ms e2 (res, None))))
        \<and> \<not> IsExternalFailure (snd (fst (scripted_operation b ov name e1 ms e2 (res, None))))
        \<and> (\<exists>a msgs. snd (scripted_operation b ov name e1 ms e2 (res, None)) =
                (rep, OnAction a) # msgs @ [(rep, OnAction (a\<lparr>a_EndedAt := time_Now e2\<rparr>))]
              \<and> length msgs = length ms
              \<and> (\<forall>x \<in> set msgs. \<exists>m. x = (rep, OnMessage m))))
   \<and> fst (brew_Update_reporting b ov e1 e2 e3 e4 e5) = brew_Update b"
proof (intro conjI impI)
  show "fst (Info txt e h) = h" "fst (Warning txt e h) = h" "fst (Error txt e h) = h"
    by (auto simp: helper_defs Let_def split: option.splits)
next
  assume r: "reporter h = Some r"
  show "\<exists>m. snd (Info txt e h) = [(r, OnMessage m)]
            \<and> m_Severity m = SeverityInfo \<and> m_Text m = txt"
    using r by (auto simp: helper_defs Let_def split: option.splits)
  show "\<exists>m. snd (Warning txt e h) = [(r, OnMessage m)]
            \<and> m_Severity m = SeverityWarning \<and> m_Text m = txt"
    using r by (auto simp: helper_defs Let_def split: option.splits)
  show "\<exists>m. snd (Error txt e h) = [(r, OnMessage m)]
            \<and> m_Severity m = SeverityError \<and> m_Text m = txt"
    using r by (auto simp: helper_defs Let_def split: option.splits)
next
  assume "reporter h = None"
  then show "snd (Info txt e h) = []" "snd (Warning txt e h) = []" "snd (Error txt e h) = []"
    by (simp_all add: helper_defs)
next
  show "fst (scripted_operation b ov name e1 script e2 (res, err)) = (res, err)"
    by (simp add: scripted_operation_def Let_def)
next
  assume a: "reporter (NewProgressHelper (progress b) ov) = Some rep
        \<and> (\<forall>(c, e) \<in> set ms. is_message c)"
  let ?op = "scripted_operation b ov name e1 ms e2 (res, None)"
  show ok: "fst ?op = (res, None)"
    by (simp add: scripted_operation_def Let_def)
  show "\<not> IsNotSupported (snd (fst ?op))" "\<not> IsNotAvailable (snd (fst ?op))"
    "\<not> IsExternalFailure (snd (fst ?op))"
    unfolding ok by (simp_all add: IsX_nil)
  let ?h = "NewProgressHelper (progress b) ov"
  let ?a = "\<lparr>a_ID = uuid_New e1, a_Name = name, a_StartedAt = time_Now e1, a_EndedAt = zero_time\<rparr>"
  let ?h1 = "?h\<lparr>currentAction := Some ?a\<rparr>"
  from a have r: "reporter ?h = Some rep" and ms: "\<forall>(c, e) \<in> set ms. is_message c" by auto
  have b: "exec_state (CallBeginAction name) e1 ?h = ?h1"
    "exec_out (CallBeginAction name) e1 ?h = [(rep, OnAction ?a)]"
    using r by (simp_all add: exec_state_def exec_out_def BeginAction_def Let_def)
  have r1: "reporter ?h1 = Some rep" using r by simp
  from messages_run [OF ms r1]
  have st: "state_after ms ?h1 = ?h1" and len: "length (deliveries ms ?h1) = length ms"
    and all: "\<forall>x \<in> set (deliveries ms ?h1). \<exists>m. x = (rep, OnMessage m)"
    by auto
  have en: "exec_out CallEndAction e2 ?h1 = [(rep, OnAction (?a\<lparr>a_EndedAt := time_Now e2\<rparr>))]"
    using r by (simp add: exec_out_def EndAction_def)
  have "snd ?op = (rep, OnAction ?a) # deliveries ms ?h1
                  @ [(rep, OnAction (?a\<lparr>a_EndedAt := time_Now e2\<rparr>))]"
    unfolding scripted_operation_def Let_def by (simp only: b st en snd_conv append_Cons append_Nil)
  with len all
  show "\<exists>a msgs. snd ?op =
                (rep, OnAction a) # msgs @ [(rep, OnAction (a\<lparr>a_EndedAt := time_Now e2\<rparr>))]
              \<and> length msgs = length ms
              \<and> (\<forall>x \<in> set msgs. \<exists>m. x = (rep, OnMessage m))"
    by blast
next
  show "fst (brew_Update_reporting b ov e1 e2 e3 e4 e5) = brew_Update b"
    by (rule brew_Update_reporting_result)
qed

theorem messages_never_fail_witness:
  "scripted_operation \<lparr>runner = None, progress = Some (7::nat)\<rparr> None ''Install''
      \<lparr>uuid_New = ''a1'', time_Now = 1\<rparr>
      [(CallWarning ''slow mirror'', \<lparr>uuid_New = [], time_Now = 2\<rparr>),
       (CallError ''checksum'', \<lparr>uuid_New = [], time_Now = 3\<rparr>)]
      \<lparr>uuid_New = [], time_Now = 4\<rparr>
      (True, None)
   = ((True, None),
      [(7, OnAction \<lparr>a_ID = ''a1'', a_Name = ''Install'', a_StartedAt = 1, a_EndedAt = 0\<rparr>),
       (7, OnMessage \<lparr>m_Severity = SeverityWarning, m_Text = ''slow mirror'', m_Timestamp = 2,
                       m_ActionID = ''a1'', m_TaskID = [], m_StepID = []\<rparr>),
       (7, OnMessage \<lparr>m_Severity = SeverityError, m_Text = ''checksum'', m_Timestamp = 3,
                       m_ActionID = ''a1'', m_TaskID = [], m_StepID = []\<rparr>),
       (7, OnAction \<lparr>a_ID = ''a1'', a_Name = ''Install'', a_StartedAt = 1, a_EndedAt = 4\<rparr>)])
   \<and> \<not> IsExternalFailure (snd (fst (scripted_operation
        \<lparr>runner = None, progress = Some (7::nat)\<rparr> None ''Install''
        \<lparr>uuid_New = ''a1'', time_Now = 1\<rparr>
        [(CallWarning ''slow mirror'', \<lparr>uuid_New = [], time_Now = 2\<rparr>),
         (CallError ''checksum'', \<lparr>uuid_New = [], time_Now = 3\<rparr>)]
        \<lparr>uuid_New = [], time_Now = 4\<rparr>
        (True, None))))"
proof -
  let ?b = "\<lparr>runner = None, progress = Some (7::nat)\<rparr>"
  let ?ms = "[(CallWarning ''slow mirror'', \<lparr>uuid_New = [], time_Now = 2\<rparr>),
              (CallError ''checksum'', \<lparr>uuid_New = [], time_Now = 3\<rparr>)]"
  let ?op = "scripted_operation ?b None ''Install'' \<lparr>uuid_New = ''a1'', time_Now = 1\<rparr> ?ms
               \<lparr>uuid_New = [], time_Now = 4\<rparr> (True, None)"
  have hyp: "reporter (NewProgressHelper (progress ?b) None) = Some 7
               \<and> (\<forall>(c, e) \<in> set ?ms. is_message c)"
    by (simp add: NewProgressHelper_def)
  have val: "?op = ((True, None),
      [(7, OnAction \<lparr>a_ID = ''a1'', a_Name = ''Install'', a_StartedAt = 1, a_EndedAt = 0\<rparr>),
       (7, OnMessage \<lparr>m_Severity = SeverityWarning, m_Text = ''slow mirror'', m_Timestamp = 2,
                       m_ActionID = ''a1'', m_TaskID = [], m_StepID = []\<rparr>),
       (7, OnMessage \<lparr>m_Severity = SeverityError, m_Text = ''checksum'', m_Timestamp = 3,
                       m_ActionID = ''a1'', m_TaskID = [], m_StepID = []\<rparr>),
       (7, OnAction \<lparr>a_ID = ''a1'', a_Name = ''Install'', a_StartedAt = 1, a_EndedAt = 4\<rparr>)])"
    by (simp add: scripted_operation_def exec_state_def exec_out_def NewProgressHelper_def
        helper_defs zero_time_def Let_def)
  from messages_never_fail [of "''slow mirror''" "\<lparr>uuid_New = [], time_Now = 2\<rparr>"
      "NewProgressHelper (Some (7::nat)) None" 7 ?b None "''Install''"
      "\<lparr>uuid_New = ''a1'', time_Now = 1\<rparr>" ?ms "\<lparr>uuid_New = [], time_Now = 4\<rparr>"
      True None 7 ?ms] hyp
  have "\<not> IsExternalFailure (snd (fst ?op))"
    by blast
  with val show ?thesis by blast
qed

text \<open>
  Claim C8.  Lengths are counted in bytes, as \<open>len\<close> does.  An output of at most 500
  bytes passes through \<open>sanitize\<close> unchanged; a longer one is cut to its first 500
  bytes, followed by the marker.  The \<open>ExternalFailureError\<close> that
  \<open>RunWithExternalError\<close> builds on failure holds the sanitized stdout and stderr,
  while the raw ones are returned beside it.
\<close>

theorem sanitize_bound:
  "(length s \<le> 500 \<longrightarrow> sanitize s = s)
   \<and> (500 < length s \<longrightarrow>
        sanitize s = take 500 s @ ''... (truncated)'' \<and> length (sanitize s) = 515)
   \<and> (run name args = (out, errout, Some e) \<longrightarrow>
        RunWithExternalError run operation backend name args =
          (out, errout,
           Some (ExternalFailureError operation backend (sanitize out) (sanitize errout) (Some e))))
   \<and> (run name args = (out, errout, None) \<longrightarrow>
        RunWithExternalError run operation backend name args = (out, errout, None))"
  by (auto simp add: sanitize_def maxLen_def RunWithExternalError_def min_def)

theorem sanitize_bound_witness:
  "sanitize (replicate 501 CHR ''x'') = replicate 500 CHR ''x'' @ ''... (truncated)''
   \<and> sanitize ''exit status 1'' = ''exit status 1''
   \<and> RunWithExternalError (\<lambda>name args. (replicate 501 CHR ''x'', ''boom'', Some (ErrorString ''exit status 1'')))
        OperationInstall ''snap'' ''snap'' [''install''] =
      (replicate 501 CHR ''x'', ''boom'',
       Some (ExternalFailureError OperationInstall ''snap''
              (replicate 500 CHR ''x'' @ ''... (truncated)'') ''boom''
              (Some (ErrorString ''exit status 1''))))"
  using sanitize_bound [of "replicate 501 CHR ''x''"
      "\<lambda>name args. (replicate 501 CHR ''x'', ''boom'', Some (ErrorString ''exit status 1''))"
      "''snap''" "[''install'']" "replicate 501 CHR ''x''" "''boom''" "ErrorString ''exit status 1''"
      OperationInstall "''snap''"]
    sanitize_bound [of "''exit status 1''"] sanitize_bound [of "''boom''"]
  by simp

text \<open>
  Claim C9.  \<open>Supports caps op\<close> is true exactly when some entry of \<open>caps\<close> has the
  operation \<open>op\<close> and is marked supported.  So it is false when no entry names
  \<open>op\<close>, and false when the entries that name \<open>op\<close> are marked unsupported.
\<close>

theorem Supports_iff:
  "(Supports caps op \<longleftrightarrow> (\<exists>c \<in> set caps. Operation c = op \<and> Supported c))
   \<and> ((\<forall>c \<in> set caps. Operation c \<noteq> op) \<longrightarrow> \<not> Supports caps op)
   \<and> ((\<forall>c \<in> set caps. Operation c = op \<longrightarrow> \<not> Supported c) \<longrightarrow> \<not> Supports caps op)"
proof -
  have main: "Supports caps op \<longleftrightarrow> (\<exists>c \<in> set caps. Operation c = op \<and> Supported c)"
    by (induction caps) auto
  then show ?thesis by blast
qed

theorem Supports_iff_witness:
  "Supports [\<lparr>Operation = OperationSearch, Supported = True, Notes = []\<rparr>,
             \<lparr>Operation = OperationInstall, Supported = False, Notes = ''not implemented''\<rparr>]
            OperationSearch
   \<and> \<not> Supports [\<lparr>Operation = OperationSearch, Supported = True, Notes = []\<rparr>,
             \<lparr>Operation = OperationInstall, Supported = False, Notes = ''not implemented''\<rparr>]
            OperationInstall
   \<and> \<not> Supports [\<lparr>Operation = OperationSearch, Supported = True, Notes = []\<rparr>,
             \<lparr>Operation = OperationInstall, Supported = False, Notes = ''not implemented''\<rparr>]
            OperationUpgradePackages"
  using Supports_iff [of "[\<lparr>Operation = OperationSearch, Supported = True, Notes = []\<rparr>,
             \<lparr>Operation = OperationInstall, Supported = False, Notes = ''not implemented''\<rparr>]"
            OperationSearch]
  by (simp add: OperationSearch_def OperationInstall_def OperationUpgradePackages_def)

text \<open>
  Claim C10.  The two helpers part on a sequence that ends an action while a task is
  open: the helper of package \<open>progress\<close> then delivers a message without a task
  identifier, the copy in package \<open>types\<close> one that still carries the identifier of
  the task.  (On nested sequences they agree, by \<open>helpers_agree_when_nested\<close>.)
\<close>

theorem helpers_diverge:
  "deliveries [(CallBeginAction ''Install'', \<lparr>uuid_New = ''a1'', time_Now = 1\<rparr>),
               (CallBeginTask ''Download'', \<lparr>uuid_New = ''t1'', time_Now = 2\<rparr>),
               (CallEndAction, \<lparr>uuid_New = [], time_Now = 3\<rparr>),
               (CallInfo ''done'', \<lparr>uuid_New = [], time_Now = 4\<rparr>)]
      (NewProgressHelper None (Some (7::nat)))
   = [(7, OnAction \<lparr>a_ID = ''a1'', a_Name = ''Install'', a_StartedAt = 1, a_EndedAt = 0\<rparr>),
      (7, OnTask \<lparr>t_ID = ''t1'', t_ActionID = ''a1'', t_Name = ''Download'',
                   t_StartedAt = 2, t_EndedAt = 0\<rparr>),
      (7, OnAction \<lparr>a_ID = ''a1'', a_Name = ''Install'', a_StartedAt = 1, a_EndedAt = 3\<rparr>),
      (7, OnMessage \<lparr>m_Severity = SeverityInfo, m_Text = ''done'', m_Timestamp = 4,
                      m_ActionID = [], m_TaskID = [], m_StepID = []\<rparr>)]
   \<and> types_deliveries [(CallBeginAction ''Install'', \<lparr>uuid_New = ''a1'', time_Now = 1\<rparr>),
               (CallBeginTask ''Download'', \<lparr>uuid_New = ''t1'', time_Now = 2\<rparr>),
               (CallEndAction, \<lparr>uuid_New = [], time_Now = 3\<rparr>),
               (CallInfo ''done'', \<lparr>uuid_New = [], time_Now = 4\<rparr>)]
      (types_NewProgressHelper None (Some (7::nat)))
   = [(7, OnAction \<lparr>a_ID = ''a1'', a_Name = ''Install'', a_StartedAt = 1, a_EndedAt = 0\<rparr>),
      (7, OnTask \<lparr>t_ID = ''t1'', t_ActionID = ''a1'', t_Name = ''Download'',
                   t_StartedAt = 2, t_EndedAt = 0\<rparr>),
      (7, OnAction \<lparr>a_ID = ''a1'', a_Name = ''Install'', a_StartedAt = 1, a_EndedAt = 3\<rparr>),
      (7, OnMessage \<lparr>m_Severity = SeverityInfo, m_Text = ''done'', m_Timestamp = 4,
                      m_ActionID = [], m_TaskID = ''t1'', m_StepID = []\<rparr>)]"
  by (simp add: exec_state_def exec_out_def NewProgressHelper_def types_NewProgressHelper_def
      helper_defs types_BeginAction_def types_BeginTask_def types_EndAction_def
      types_message_def types_Info_def zero_time_def Let_def)

end
